theory Spec2Isabelle
  imports Main "HOL-Library.Word"
begin

section \<open>The media transport unit of a server session (server\_session\_media.go)\<close>

text \<open>
  The file embeds \<^verbatim>\<open>serverSessionMedia\<close> and its methods. The unit lives between the
  session and its collaborators (the two shared UDP listeners, the interleaved connection,
  the packet codec, the per-format pipelines, the session's callbacks). Every call the unit
  makes to a collaborator, and every atomic operation on the session's shared counters, is
  appended to a log kept in the session record, in the order the code performs it. What a
  collaborator answers is a parameter of the model, collected in the record \<open>env\<close>.
\<close>

subsection \<open>Machine types\<close>

type_synonym u8 = "8 word"
type_synonym u16 = "16 word"
type_synonym u32 = "32 word"
type_synonym u64 = "64 word"

text \<open>Go's \<^verbatim>\<open>[]byte\<close>.\<close>
type_synonym bytes = "u8 list"

text \<open>
  \<^verbatim>\<open>time.Time\<close> as the number of nanoseconds since the Unix epoch, \<^verbatim>\<open>time.Duration\<close> as
  a number of nanoseconds. \<^verbatim>\<open>Unix()\<close> is the number of whole seconds.
\<close>
type_synonym time = int
type_synonym duration = int

definition Unix :: "time \<Rightarrow> int" where
  "Unix t = t div 1000000000"

definition time_Add :: "time \<Rightarrow> duration \<Rightarrow> time" where
  "time_Add t d = t + d"

text \<open>\<^verbatim>\<open>net.IP\<close> and \<^verbatim>\<open>net.UDPAddr\<close>.\<close>
type_synonym IP = bytes

record UDPAddr =
  addr_IP :: IP
  addr_Port :: int
  addr_Zone :: string

subsection \<open>Packets of the codec\<close>

text \<open>
  \<^verbatim>\<open>rtp.Packet\<close>: the header fields and the payload (header extensions and the padding
  size are left out; the unit reads \<^verbatim>\<open>PayloadType\<close> and writes \<^verbatim>\<open>Version\<close> only).
\<close>

record rtp_Header =
  Version :: u8
  Padding :: bool
  Extension :: bool
  Marker :: bool
  PayloadType :: u8
  SequenceNumber :: u16
  Timestamp :: u32
  SSRC :: u32
  CSRC :: "u32 list"

record rtp_Packet =
  Header :: rtp_Header
  Payload :: bytes

text \<open>Go's zero values \<^verbatim>\<open>rtp.Header{}\<close> and \<^verbatim>\<open>rtp.Packet{}\<close>.\<close>

definition rtp_Header_zero :: rtp_Header where
  "rtp_Header_zero =
     \<lparr>Version = 0, Padding = False, Extension = False, Marker = False, PayloadType = 0,
      SequenceNumber = 0, Timestamp = 0, SSRC = 0, CSRC = []\<rparr>"

definition rtp_Packet_zero :: rtp_Packet where
  "rtp_Packet_zero = \<lparr>Header = rtp_Header_zero, Payload = []\<rparr>"

text \<open>
  \<^verbatim>\<open>rtcp.Packet\<close> is an interface. The unit distinguishes \<^verbatim>\<open>*rtcp.SenderReport\<close>, of which
  it reads \<^verbatim>\<open>SSRC\<close>, from every other packet, and builds \<^verbatim>\<open>&rtcp.ReceiverReport{}\<close>. The
  fields the unit never touches are kept as uninterpreted bytes.
\<close>

datatype rtcp_Packet =
    SenderReport (sr_SSRC: u32) (sr_rest: bytes)
  | ReceiverReport (rr_SSRC: u32) (rr_rest: bytes)
  | OtherPacket bytes

definition rtcp_ReceiverReport_zero :: rtcp_Packet where
  "rtcp_ReceiverReport_zero = ReceiverReport 0 []"

subsection \<open>Errors\<close>

text \<open>
  The values handed to \<^verbatim>\<open>onDecodeError\<close>: the four \<^verbatim>\<open>liberrors\<close> values the unit creates,
  and the error returned by the codec, passed on unchanged.
\<close>

datatype 'e error =
    ErrServerRTCPPacketTooBigUDP
  | ErrServerRTPPacketTooBigUDP
  | ErrServerRTPPacketUnknownPayloadType u8
  | ErrServerRTCPPacketTooBig int int
  | CodecError 'e

text \<open>Dereferencing \<^verbatim>\<open>sm.ss.setuppedTransport\<close> when it is nil panics.\<close>

datatype panic = NilPointerDereference

subsection \<open>The session and the unit\<close>

text \<open>
  \<^verbatim>\<open>ServerSessionState\<close> and \<^verbatim>\<open>Transport\<close> are declared elsewhere in the package. The unit
  names two states and three transports; every other value is kept as \<open>Other\<close>.
\<close>

datatype ServerSessionState =
    ServerSessionStatePreRecord
  | ServerSessionStatePlay
  | ServerSessionStateOther nat

datatype Transport =
    TransportUDP
  | TransportUDPMulticast
  | TransportTCP
  | TransportOther nat

text \<open>The server's two shared UDP listeners.\<close>

datatype listener = udpRTPListener | udpRTCPListener

text \<open>The method values of the unit that \<^verbatim>\<open>start\<close> stores or registers.\<close>

datatype readFunc =
    Fn_readRTCPUDPPlay
  | Fn_readRTPUDPRecord
  | Fn_readRTCPUDPRecord
  | Fn_readRTPTCPPlay
  | Fn_readRTCPTCPPlay
  | Fn_readRTPTCPRecord
  | Fn_readRTCPTCPRecord

datatype writeFunc =
    Fn_writePacketRTPInQueueUDP
  | Fn_writePacketRTCPInQueueUDP
  | Fn_writePacketRTPInQueueTCP
  | Fn_writePacketRTCPInQueueTCP

text \<open>
  \<^verbatim>\<open>serverSessionFormat\<close>, as \<^verbatim>\<open>initialize\<close> builds it: the back pointer to the unit and
  the no-op \<^verbatim>\<open>onPacketRTP\<close> are left out. The entries of \<^verbatim>\<open>formats\<close> have pairwise different
  keys, so a pointer to an entry is identified with the entry.
\<close>

record 'fmt serverSessionFormat =
  format :: 'fmt

text \<open>\<^verbatim>\<open>base.InterleavedFrame\<close>.\<close>

record InterleavedFrame =
  Channel :: int
  FramePayload :: bytes

text \<open>The log: calls to collaborators and atomic operations, in program order.\<close>

datatype ('e, 'fmt) event =
    SfStart "'fmt serverSessionFormat"
  | SfStop "'fmt serverSessionFormat"
  | UDPWrite listener bytes UDPAddr
  | AddClient listener IP int readFunc
  | RemoveClient listener IP int
  | SetWriteDeadline time
  | WriteInterleavedFrame InterleavedFrame
  | OnDecodeError "'e error"
  | OnPacketRTCP rtcp_Packet
  | ReadRTPUDP "'fmt serverSessionFormat" rtp_Packet time
  | ReadRTPTCP "'fmt serverSessionFormat" rtp_Packet
  | ProcessSenderReport "'fmt serverSessionFormat" rtcp_Packet time
  | CodecRTPUnmarshal bytes
  | CodecRTCPUnmarshal bytes
  | CodecRTPMarshal rtp_Packet
  | CodecRTCPMarshal rtcp_Packet
  | AtomicAddBytesSent u64
  | AtomicAddBytesReceived u64
  | AtomicStoreUdpLastPacketTime int

text \<open>
  \<^verbatim>\<open>ServerSession\<close>, the fields the unit reads or writes. \<^verbatim>\<open>tcpCallbackByChannel\<close> is
  \<open>None\<close> while the Go map is nil. The pointers \<^verbatim>\<open>bytesSent\<close>, \<^verbatim>\<open>bytesReceived\<close>,
  \<^verbatim>\<open>udpLastPacketTime\<close>, \<^verbatim>\<open>tcpFrame\<close>, \<^verbatim>\<open>tcpConn\<close> and \<^verbatim>\<open>s\<close> are allocated by the session
  and modelled by what they point to.
\<close>

record ('e, 'fmt) ServerSession =
  state :: ServerSessionState
  setuppedTransport :: "Transport option"
  author_ip :: IP
  bytesSent :: u64
  bytesReceived :: u64
  udpLastPacketTime :: int
  tcpCallbackByChannel :: "(int \<rightharpoonup> readFunc) option"
  tcpFrame :: InterleavedFrame
  trace :: "('e, 'fmt) event list"

record 'fmt serverSessionMedia =
  media_Formats :: "'fmt list"
  tcpChannel :: int
  udpRTPReadPort :: int
  udpRTPWriteAddr :: UDPAddr
  udpRTCPReadPort :: int
  udpRTCPWriteAddr :: UDPAddr
  formats :: "u8 \<rightharpoonup> 'fmt serverSessionFormat"
  writePacketRTPInQueue :: "writeFunc option"
  writePacketRTCPInQueue :: "writeFunc option"

text \<open>
  What the unit takes from outside this file.
  \<^item> \<open>udpMaxPayloadSize\<close>: the package constant.
  \<^item> \<open>rtp_Unmarshal\<close>, \<open>rtcp_Unmarshal\<close>, \<open>rtp_Marshal\<close>, \<open>rtcp_Marshal\<close>: the codec.
    Unmarshalling gives an error or the decoded value; marshalling gives Go's pair of the
    bytes and the error.
  \<^item> \<open>timeNow\<close>: what \<^verbatim>\<open>sm.ss.s.timeNow()\<close> returns when the call reads it; \<open>time_Now\<close>: the
    same for \<^verbatim>\<open>time.Now()\<close>. No function below reads either clock more than once.
  \<^item> \<open>WriteTimeout\<close>: the server's configuration value.
  \<^item> \<open>format_PayloadType\<close>: the method \<^verbatim>\<open>PayloadType()\<close> of a format.
  \<^item> \<open>SenderSSRC\<close>: what \<^verbatim>\<open>format.rtcpReceiver.SenderSSRC()\<close> answers for an entry, in the
    session as it is at the call; \<open>None\<close> when the second result is false.
  \<^item> \<open>rangeFormats\<close>: the order in which a \<^verbatim>\<open>range\<close> over the Go map \<^verbatim>\<open>sm.formats\<close>,
    started in the given session, visits the keys. Go leaves the order open.
  \<^item> \<open>udpListener_write\<close>, \<open>conn_WriteInterleavedFrame\<close>: the error returned by the
    underlying write, \<open>None\<close> for nil, in the session as it is at the call.
\<close>

record ('e, 'fmt) env =
  udpMaxPayloadSize :: int
  rtp_Unmarshal :: "bytes \<Rightarrow> 'e + rtp_Packet"
  rtcp_Unmarshal :: "bytes \<Rightarrow> 'e + rtcp_Packet list"
  rtp_Marshal :: "rtp_Packet \<Rightarrow> bytes \<times> 'e option"
  rtcp_Marshal :: "rtcp_Packet \<Rightarrow> bytes \<times> 'e option"
  timeNow :: time
  time_Now :: time
  WriteTimeout :: duration
  format_PayloadType :: "'fmt \<Rightarrow> u8"
  SenderSSRC :: "('e, 'fmt) ServerSession \<Rightarrow> 'fmt serverSessionFormat \<Rightarrow> u32 option"
  rangeFormats :: "('e, 'fmt) ServerSession \<Rightarrow> u8 list"
  udpListener_write :: "('e, 'fmt) ServerSession \<Rightarrow> listener \<Rightarrow> bytes \<Rightarrow> UDPAddr \<Rightarrow> 'e option"
  conn_WriteInterleavedFrame :: "('e, 'fmt) ServerSession \<Rightarrow> InterleavedFrame \<Rightarrow> 'e option"

subsection \<open>Primitive effects\<close>

definition emit :: "('e, 'fmt) event \<Rightarrow> ('e, 'fmt) ServerSession \<Rightarrow> ('e, 'fmt) ServerSession" where
  "emit e ss = ss\<lparr>trace := trace ss @ [e]\<rparr>"

text \<open>\<^verbatim>\<open>atomic.AddUint64(sm.ss.bytesSent, n)\<close>: addition of \<^verbatim>\<open>uint64\<close> wraps.\<close>

definition atomic_AddUint64_bytesSent ::
  "u64 \<Rightarrow> ('e, 'fmt) ServerSession \<Rightarrow> ('e, 'fmt) ServerSession" where
  "atomic_AddUint64_bytesSent n ss = emit (AtomicAddBytesSent n) (ss\<lparr>bytesSent := bytesSent ss + n\<rparr>)"

definition atomic_AddUint64_bytesReceived ::
  "u64 \<Rightarrow> ('e, 'fmt) ServerSession \<Rightarrow> ('e, 'fmt) ServerSession" where
  "atomic_AddUint64_bytesReceived n ss =
     emit (AtomicAddBytesReceived n) (ss\<lparr>bytesReceived := bytesReceived ss + n\<rparr>)"

definition atomic_StoreInt64_udpLastPacketTime ::
  "int \<Rightarrow> ('e, 'fmt) ServerSession \<Rightarrow> ('e, 'fmt) ServerSession" where
  "atomic_StoreInt64_udpLastPacketTime v ss =
     emit (AtomicStoreUdpLastPacketTime v) (ss\<lparr>udpLastPacketTime := v\<rparr>)"

definition onDecodeError :: "'e error \<Rightarrow> ('e, 'fmt) ServerSession \<Rightarrow> ('e, 'fmt) ServerSession" where
  "onDecodeError err ss = emit (OnDecodeError err) ss"

definition onPacketRTCP :: "rtcp_Packet \<Rightarrow> ('e, 'fmt) ServerSession \<Rightarrow> ('e, 'fmt) ServerSession" where
  "onPacketRTCP pkt ss = emit (OnPacketRTCP pkt) ss"

text \<open>The two listeners' \<^verbatim>\<open>write\<close>: the call is logged, the answer is the environment's.\<close>

definition listener_write ::
  "('e, 'fmt) env \<Rightarrow> listener \<Rightarrow> bytes \<Rightarrow> UDPAddr \<Rightarrow> ('e, 'fmt) ServerSession
     \<Rightarrow> 'e option \<times> ('e, 'fmt) ServerSession" where
  "listener_write env l byts addr ss =
     (udpListener_write env ss l byts addr, emit (UDPWrite l byts addr) ss)"

definition addClient ::
  "listener \<Rightarrow> IP \<Rightarrow> int \<Rightarrow> readFunc \<Rightarrow> ('e, 'fmt) ServerSession \<Rightarrow> ('e, 'fmt) ServerSession" where
  "addClient l ip port cb ss = emit (AddClient l ip port cb) ss"

definition removeClient ::
  "listener \<Rightarrow> IP \<Rightarrow> int \<Rightarrow> ('e, 'fmt) ServerSession \<Rightarrow> ('e, 'fmt) ServerSession" where
  "removeClient l ip port ss = emit (RemoveClient l ip port) ss"

text \<open>The codec: each call is logged.\<close>

definition call_rtp_Unmarshal ::
  "('e, 'fmt) env \<Rightarrow> bytes \<Rightarrow> ('e, 'fmt) ServerSession
     \<Rightarrow> ('e + rtp_Packet) \<times> ('e, 'fmt) ServerSession" where
  "call_rtp_Unmarshal env payload ss = (rtp_Unmarshal env payload, emit (CodecRTPUnmarshal payload) ss)"

definition call_rtcp_Unmarshal ::
  "('e, 'fmt) env \<Rightarrow> bytes \<Rightarrow> ('e, 'fmt) ServerSession
     \<Rightarrow> ('e + rtcp_Packet list) \<times> ('e, 'fmt) ServerSession" where
  "call_rtcp_Unmarshal env payload ss =
     (rtcp_Unmarshal env payload, emit (CodecRTCPUnmarshal payload) ss)"

definition call_rtp_Marshal ::
  "('e, 'fmt) env \<Rightarrow> rtp_Packet \<Rightarrow> ('e, 'fmt) ServerSession
     \<Rightarrow> (bytes \<times> 'e option) \<times> ('e, 'fmt) ServerSession" where
  "call_rtp_Marshal env pkt ss = (rtp_Marshal env pkt, emit (CodecRTPMarshal pkt) ss)"

definition call_rtcp_Marshal ::
  "('e, 'fmt) env \<Rightarrow> rtcp_Packet \<Rightarrow> ('e, 'fmt) ServerSession
     \<Rightarrow> (bytes \<times> 'e option) \<times> ('e, 'fmt) ServerSession" where
  "call_rtcp_Marshal env pkt ss = (rtcp_Marshal env pkt, emit (CodecRTCPMarshal pkt) ss)"

text \<open>
  \<^verbatim>\<open>for _, sf := range sm.formats\<close>: the entries of the map in the order the environment
  gives for this \<^verbatim>\<open>range\<close>.
\<close>

definition range_formats ::
  "('e, 'fmt) env \<Rightarrow> 'fmt serverSessionMedia \<Rightarrow> ('e, 'fmt) ServerSession
     \<Rightarrow> 'fmt serverSessionFormat list" where
  "range_formats env sm ss = List.map_filter (formats sm) (rangeFormats env ss)"

subsection \<open>initialize, start, stop\<close>

fun initialize_loop ::
  "('e, 'fmt) env \<Rightarrow> 'fmt list \<Rightarrow> (u8 \<rightharpoonup> 'fmt serverSessionFormat)
     \<Rightarrow> (u8 \<rightharpoonup> 'fmt serverSessionFormat)" where
  "initialize_loop env [] m = m"
| "initialize_loop env (forma # rest) m =
     initialize_loop env rest (m(format_PayloadType env forma \<mapsto> \<lparr>format = forma\<rparr>))"

definition initialize ::
  "('e, 'fmt) env \<Rightarrow> 'fmt serverSessionMedia \<Rightarrow> ('e, 'fmt) ServerSession
     \<Rightarrow> 'fmt serverSessionMedia" where
  "initialize env sm ss =
     (if state ss = ServerSessionStatePreRecord
      then sm\<lparr>formats := initialize_loop env (media_Formats sm) Map.empty\<rparr>
      else sm)"

fun start_formats ::
  "'fmt serverSessionFormat list \<Rightarrow> ('e, 'fmt) ServerSession \<Rightarrow> ('e, 'fmt) ServerSession" where
  "start_formats [] ss = ss"
| "start_formats (sf # rest) ss = start_formats rest (emit (SfStart sf) ss)"

fun stop_formats ::
  "'fmt serverSessionFormat list \<Rightarrow> ('e, 'fmt) ServerSession \<Rightarrow> ('e, 'fmt) ServerSession" where
  "stop_formats [] ss = ss"
| "stop_formats (sf # rest) ss = stop_formats rest (emit (SfStop sf) ss)"

text \<open>The branch of \<^verbatim>\<open>start\<close> for \<^verbatim>\<open>TransportUDP\<close>, after the write strategies are set.\<close>

definition start_udp_unicast ::
  "('e, 'fmt) env \<Rightarrow> 'fmt serverSessionMedia \<Rightarrow> ('e, 'fmt) ServerSession
     \<Rightarrow> ('e, 'fmt) ServerSession" where
  "start_udp_unicast env sm ss =
     (if state ss = ServerSessionStatePlay
      then addClient udpRTCPListener (author_ip ss) (udpRTCPReadPort sm) Fn_readRTCPUDPPlay ss
      else
        (let (m1, ss1) = call_rtp_Marshal env (rtp_Packet_zero\<lparr>Header := rtp_Header_zero\<lparr>Version := 2\<rparr>\<rparr>) ss;
             (w1, ss2) = listener_write env udpRTPListener (fst m1) (udpRTPWriteAddr sm) ss1;
             (m2, ss3) = call_rtcp_Marshal env rtcp_ReceiverReport_zero ss2;
             (w2, ss4) = listener_write env udpRTCPListener (fst m2) (udpRTCPWriteAddr sm) ss3;
             ss5 = addClient udpRTPListener (author_ip ss4) (udpRTPReadPort sm) Fn_readRTPUDPRecord ss4
         in addClient udpRTCPListener (author_ip ss5) (udpRTCPReadPort sm) Fn_readRTCPUDPRecord ss5))"

text \<open>The branch of \<^verbatim>\<open>start\<close> for \<^verbatim>\<open>TransportTCP\<close>, after the write strategies are set.\<close>

definition start_tcp ::
  "'fmt serverSessionMedia \<Rightarrow> ('e, 'fmt) ServerSession \<Rightarrow> ('e, 'fmt) ServerSession" where
  "start_tcp sm ss =
     (let m = (case tcpCallbackByChannel ss of None \<Rightarrow> Map.empty | Some m \<Rightarrow> m)
      in if state ss = ServerSessionStatePlay
         then ss\<lparr>tcpCallbackByChannel :=
                  Some (m(tcpChannel sm \<mapsto> Fn_readRTPTCPPlay, tcpChannel sm + 1 \<mapsto> Fn_readRTCPTCPPlay))\<rparr>
         else ss\<lparr>tcpCallbackByChannel :=
                  Some (m(tcpChannel sm \<mapsto> Fn_readRTPTCPRecord, tcpChannel sm + 1 \<mapsto> Fn_readRTCPTCPRecord))\<rparr>)"

definition start ::
  "('e, 'fmt) env \<Rightarrow> 'fmt serverSessionMedia \<Rightarrow> ('e, 'fmt) ServerSession
     \<Rightarrow> panic + ('fmt serverSessionMedia \<times> ('e, 'fmt) ServerSession)" where
  "start env sm ss =
     (let ss1 = start_formats (range_formats env sm ss) ss
      in case setuppedTransport ss1 of
           None \<Rightarrow> Inl NilPointerDereference
         | Some t \<Rightarrow>
             if t = TransportUDP \<or> t = TransportUDPMulticast then
               (let sm1 = sm\<lparr>writePacketRTPInQueue := Some Fn_writePacketRTPInQueueUDP,
                               writePacketRTCPInQueue := Some Fn_writePacketRTCPInQueueUDP\<rparr>
                in if t = TransportUDP then Inr (sm1, start_udp_unicast env sm1 ss1)
                   else Inr (sm1, ss1))
             else if t = TransportTCP then
               (let sm1 = sm\<lparr>writePacketRTPInQueue := Some Fn_writePacketRTPInQueueTCP,
                               writePacketRTCPInQueue := Some Fn_writePacketRTCPInQueueTCP\<rparr>
                in Inr (sm1, start_tcp sm1 ss1))
             else Inr (sm, ss1))"

definition stop ::
  "('e, 'fmt) env \<Rightarrow> 'fmt serverSessionMedia \<Rightarrow> ('e, 'fmt) ServerSession
     \<Rightarrow> panic + ('e, 'fmt) ServerSession" where
  "stop env sm ss =
     (case setuppedTransport ss of
        None \<Rightarrow> Inl NilPointerDereference
      | Some t \<Rightarrow>
          (let ss1 = (if t = TransportUDP
                      then removeClient udpRTCPListener (author_ip ss) (udpRTCPReadPort sm)
                             (removeClient udpRTPListener (author_ip ss) (udpRTPReadPort sm) ss)
                      else ss)
           in Inr (stop_formats (range_formats env sm ss1) ss1)))"

subsection \<open>findFormatWithSSRC\<close>

fun findFormatWithSSRC_loop ::
  "('e, 'fmt) env \<Rightarrow> ('e, 'fmt) ServerSession \<Rightarrow> 'fmt serverSessionFormat list \<Rightarrow> u32
     \<Rightarrow> 'fmt serverSessionFormat option" where
  "findFormatWithSSRC_loop env ss [] ssrc = None"
| "findFormatWithSSRC_loop env ss (fmt # rest) ssrc =
     (case SenderSSRC env ss fmt of
        Some tssrc \<Rightarrow> if tssrc = ssrc then Some fmt else findFormatWithSSRC_loop env ss rest ssrc
      | None \<Rightarrow> findFormatWithSSRC_loop env ss rest ssrc)"

definition findFormatWithSSRC ::
  "('e, 'fmt) env \<Rightarrow> 'fmt serverSessionMedia \<Rightarrow> u32 \<Rightarrow> ('e, 'fmt) ServerSession
     \<Rightarrow> 'fmt serverSessionFormat option" where
  "findFormatWithSSRC env sm ssrc ss = findFormatWithSSRC_loop env ss (range_formats env sm ss) ssrc"

subsection \<open>The write strategies\<close>

definition writePacketRTPInQueueUDP ::
  "('e, 'fmt) env \<Rightarrow> 'fmt serverSessionMedia \<Rightarrow> bytes \<Rightarrow> ('e, 'fmt) ServerSession
     \<Rightarrow> 'e option \<times> ('e, 'fmt) ServerSession" where
  "writePacketRTPInQueueUDP env sm payload ss =
     (let ss1 = atomic_AddUint64_bytesSent (of_nat (length payload)) ss
      in listener_write env udpRTPListener payload (udpRTPWriteAddr sm) ss1)"

definition writePacketRTCPInQueueUDP ::
  "('e, 'fmt) env \<Rightarrow> 'fmt serverSessionMedia \<Rightarrow> bytes \<Rightarrow> ('e, 'fmt) ServerSession
     \<Rightarrow> 'e option \<times> ('e, 'fmt) ServerSession" where
  "writePacketRTCPInQueueUDP env sm payload ss =
     (let ss1 = atomic_AddUint64_bytesSent (of_nat (length payload)) ss
      in listener_write env udpRTCPListener payload (udpRTCPWriteAddr sm) ss1)"

text \<open>
  \<^verbatim>\<open>sm.ss.tcpConn.conn.WriteInterleavedFrame(sm.ss.tcpFrame, sm.ss.tcpBuffer)\<close>: the call is
  logged with the frame it is given.
\<close>

definition call_WriteInterleavedFrame ::
  "('e, 'fmt) env \<Rightarrow> ('e, 'fmt) ServerSession \<Rightarrow> 'e option \<times> ('e, 'fmt) ServerSession" where
  "call_WriteInterleavedFrame env ss =
     (conn_WriteInterleavedFrame env ss (tcpFrame ss), emit (WriteInterleavedFrame (tcpFrame ss)) ss)"

definition writePacketRTPInQueueTCP ::
  "('e, 'fmt) env \<Rightarrow> 'fmt serverSessionMedia \<Rightarrow> bytes \<Rightarrow> ('e, 'fmt) ServerSession
     \<Rightarrow> 'e option \<times> ('e, 'fmt) ServerSession" where
  "writePacketRTPInQueueTCP env sm payload ss =
     (let ss1 = atomic_AddUint64_bytesSent (of_nat (length payload)) ss;
          ss2 = ss1\<lparr>tcpFrame := (tcpFrame ss1)\<lparr>Channel := tcpChannel sm\<rparr>\<rparr>;
          ss3 = ss2\<lparr>tcpFrame := (tcpFrame ss2)\<lparr>FramePayload := payload\<rparr>\<rparr>;
          ss4 = emit (SetWriteDeadline (time_Add (time_Now env) (WriteTimeout env))) ss3
      in call_WriteInterleavedFrame env ss4)"

definition writePacketRTCPInQueueTCP ::
  "('e, 'fmt) env \<Rightarrow> 'fmt serverSessionMedia \<Rightarrow> bytes \<Rightarrow> ('e, 'fmt) ServerSession
     \<Rightarrow> 'e option \<times> ('e, 'fmt) ServerSession" where
  "writePacketRTCPInQueueTCP env sm payload ss =
     (let ss1 = atomic_AddUint64_bytesSent (of_nat (length payload)) ss;
          ss2 = ss1\<lparr>tcpFrame := (tcpFrame ss1)\<lparr>Channel := tcpChannel sm + 1\<rparr>\<rparr>;
          ss3 = ss2\<lparr>tcpFrame := (tcpFrame ss2)\<lparr>FramePayload := payload\<rparr>\<rparr>;
          ss4 = emit (SetWriteDeadline (time_Add (time_Now env) (WriteTimeout env))) ss3
      in call_WriteInterleavedFrame env ss4)"

text \<open>Calling a stored write strategy.\<close>

fun run_writeFunc ::
  "('e, 'fmt) env \<Rightarrow> 'fmt serverSessionMedia \<Rightarrow> writeFunc \<Rightarrow> bytes \<Rightarrow> ('e, 'fmt) ServerSession
     \<Rightarrow> 'e option \<times> ('e, 'fmt) ServerSession" where
  "run_writeFunc env sm Fn_writePacketRTPInQueueUDP = writePacketRTPInQueueUDP env sm"
| "run_writeFunc env sm Fn_writePacketRTCPInQueueUDP = writePacketRTCPInQueueUDP env sm"
| "run_writeFunc env sm Fn_writePacketRTPInQueueTCP = writePacketRTPInQueueTCP env sm"
| "run_writeFunc env sm Fn_writePacketRTCPInQueueTCP = writePacketRTCPInQueueTCP env sm"

text \<open>
  A sequence of invocations of write strategies, one after the other; the errors returned
  are collected.
\<close>

fun run_writes ::
  "('e, 'fmt) env \<Rightarrow> 'fmt serverSessionMedia \<Rightarrow> (writeFunc \<times> bytes) list
     \<Rightarrow> ('e, 'fmt) ServerSession \<Rightarrow> 'e option list \<times> ('e, 'fmt) ServerSession" where
  "run_writes env sm [] ss = ([], ss)"
| "run_writes env sm ((w, payload) # rest) ss =
     (let (err, ss1) = run_writeFunc env sm w payload ss;
          (errs, ss2) = run_writes env sm rest ss1
      in (err # errs, ss2))"

subsection \<open>The read entry points\<close>

text \<open>The loop of \<^verbatim>\<open>readRTCPUDPPlay\<close> and of \<^verbatim>\<open>readRTCPTCPPlay\<close>.\<close>

fun rtcpPlay_loop ::
  "rtcp_Packet list \<Rightarrow> ('e, 'fmt) ServerSession \<Rightarrow> ('e, 'fmt) ServerSession" where
  "rtcpPlay_loop [] ss = ss"
| "rtcpPlay_loop (pkt # rest) ss = rtcpPlay_loop rest (onPacketRTCP pkt ss)"

text \<open>
  The body and the loop of \<^verbatim>\<open>readRTCPUDPRecord\<close> and of \<^verbatim>\<open>readRTCPTCPRecord\<close>; \<open>now\<close> is
  read once, before the loop.
\<close>

definition rtcpRecord_body ::
  "('e, 'fmt) env \<Rightarrow> 'fmt serverSessionMedia \<Rightarrow> time \<Rightarrow> rtcp_Packet \<Rightarrow> ('e, 'fmt) ServerSession
     \<Rightarrow> ('e, 'fmt) ServerSession" where
  "rtcpRecord_body env sm now pkt ss =
     (let ss1 = (case pkt of
                   SenderReport ssrc rest \<Rightarrow>
                     (case findFormatWithSSRC env sm ssrc ss of
                        Some fmt \<Rightarrow> emit (ProcessSenderReport fmt pkt now) ss
                      | None \<Rightarrow> ss)
                 | ReceiverReport ssrc rest \<Rightarrow> ss
                 | OtherPacket b \<Rightarrow> ss)
      in onPacketRTCP pkt ss1)"

fun rtcpRecord_loop ::
  "('e, 'fmt) env \<Rightarrow> 'fmt serverSessionMedia \<Rightarrow> time \<Rightarrow> rtcp_Packet list
     \<Rightarrow> ('e, 'fmt) ServerSession \<Rightarrow> ('e, 'fmt) ServerSession" where
  "rtcpRecord_loop env sm now [] ss = ss"
| "rtcpRecord_loop env sm now (pkt # rest) ss =
     rtcpRecord_loop env sm now rest (rtcpRecord_body env sm now pkt ss)"

definition readRTCPUDPPlay ::
  "('e, 'fmt) env \<Rightarrow> 'fmt serverSessionMedia \<Rightarrow> bytes \<Rightarrow> ('e, 'fmt) ServerSession
     \<Rightarrow> bool \<times> ('e, 'fmt) ServerSession" where
  "readRTCPUDPPlay env sm payload ss =
     (let plen = int (length payload);
          ss1 = atomic_AddUint64_bytesReceived (of_int plen) ss
      in if plen = udpMaxPayloadSize env + 1
         then (False, onDecodeError ErrServerRTCPPacketTooBigUDP ss1)
         else
           (let (r, ss2) = call_rtcp_Unmarshal env payload ss1
            in case r of
                 Inl err \<Rightarrow> (False, onDecodeError (CodecError err) ss2)
               | Inr packets \<Rightarrow>
                   (let now = timeNow env;
                        ss3 = atomic_StoreInt64_udpLastPacketTime (Unix now) ss2
                    in (True, rtcpPlay_loop packets ss3))))"

definition readRTPUDPRecord ::
  "('e, 'fmt) env \<Rightarrow> 'fmt serverSessionMedia \<Rightarrow> bytes \<Rightarrow> ('e, 'fmt) ServerSession
     \<Rightarrow> bool \<times> ('e, 'fmt) ServerSession" where
  "readRTPUDPRecord env sm payload ss =
     (let plen = int (length payload);
          ss1 = atomic_AddUint64_bytesReceived (of_int plen) ss
      in if plen = udpMaxPayloadSize env + 1
         then (False, onDecodeError ErrServerRTPPacketTooBigUDP ss1)
         else
           (let (r, ss2) = call_rtp_Unmarshal env payload ss1
            in case r of
                 Inl err \<Rightarrow> (False, onDecodeError (CodecError err) ss2)
               | Inr pkt \<Rightarrow>
                   (case formats sm (PayloadType (Header pkt)) of
                      None \<Rightarrow>
                        (False,
                         onDecodeError (ErrServerRTPPacketUnknownPayloadType (PayloadType (Header pkt))) ss2)
                    | Some forma \<Rightarrow>
                        (let now = timeNow env;
                             ss3 = atomic_StoreInt64_udpLastPacketTime (Unix now) ss2
                         in (True, emit (ReadRTPUDP forma pkt now) ss3)))))"

definition readRTCPUDPRecord ::
  "('e, 'fmt) env \<Rightarrow> 'fmt serverSessionMedia \<Rightarrow> bytes \<Rightarrow> ('e, 'fmt) ServerSession
     \<Rightarrow> bool \<times> ('e, 'fmt) ServerSession" where
  "readRTCPUDPRecord env sm payload ss =
     (let plen = int (length payload);
          ss1 = atomic_AddUint64_bytesReceived (of_int plen) ss
      in if plen = udpMaxPayloadSize env + 1
         then (False, onDecodeError ErrServerRTCPPacketTooBigUDP ss1)
         else
           (let (r, ss2) = call_rtcp_Unmarshal env payload ss1
            in case r of
                 Inl err \<Rightarrow> (False, onDecodeError (CodecError err) ss2)
               | Inr packets \<Rightarrow>
                   (let now = timeNow env;
                        ss3 = atomic_StoreInt64_udpLastPacketTime (Unix now) ss2
                    in (True, rtcpRecord_loop env sm now packets ss3))))"

definition readRTPTCPPlay ::
  "('e, 'fmt) env \<Rightarrow> 'fmt serverSessionMedia \<Rightarrow> bytes \<Rightarrow> ('e, 'fmt) ServerSession
     \<Rightarrow> bool \<times> ('e, 'fmt) ServerSession" where
  "readRTPTCPPlay env sm payload ss = (False, ss)"

definition readRTCPTCPPlay ::
  "('e, 'fmt) env \<Rightarrow> 'fmt serverSessionMedia \<Rightarrow> bytes \<Rightarrow> ('e, 'fmt) ServerSession
     \<Rightarrow> bool \<times> ('e, 'fmt) ServerSession" where
  "readRTCPTCPPlay env sm payload ss =
     (if int (length payload) > udpMaxPayloadSize env
      then (False,
            onDecodeError (ErrServerRTCPPacketTooBig (int (length payload)) (udpMaxPayloadSize env)) ss)
      else
        (let (r, ss1) = call_rtcp_Unmarshal env payload ss
         in case r of
              Inl err \<Rightarrow> (False, onDecodeError (CodecError err) ss1)
            | Inr packets \<Rightarrow> (True, rtcpPlay_loop packets ss1)))"

definition readRTPTCPRecord ::
  "('e, 'fmt) env \<Rightarrow> 'fmt serverSessionMedia \<Rightarrow> bytes \<Rightarrow> ('e, 'fmt) ServerSession
     \<Rightarrow> bool \<times> ('e, 'fmt) ServerSession" where
  "readRTPTCPRecord env sm payload ss =
     (let (r, ss1) = call_rtp_Unmarshal env payload ss
      in case r of
           Inl err \<Rightarrow> (False, onDecodeError (CodecError err) ss1)
         | Inr pkt \<Rightarrow>
             (case formats sm (PayloadType (Header pkt)) of
                None \<Rightarrow>
                  (False,
                   onDecodeError (ErrServerRTPPacketUnknownPayloadType (PayloadType (Header pkt))) ss1)
              | Some forma \<Rightarrow> (True, emit (ReadRTPTCP forma pkt) ss1)))"

definition readRTCPTCPRecord ::
  "('e, 'fmt) env \<Rightarrow> 'fmt serverSessionMedia \<Rightarrow> bytes \<Rightarrow> ('e, 'fmt) ServerSession
     \<Rightarrow> bool \<times> ('e, 'fmt) ServerSession" where
  "readRTCPTCPRecord env sm payload ss =
     (if int (length payload) > udpMaxPayloadSize env
      then (False,
            onDecodeError (ErrServerRTCPPacketTooBig (int (length payload)) (udpMaxPayloadSize env)) ss)
      else
        (let (r, ss1) = call_rtcp_Unmarshal env payload ss
         in case r of
              Inl err \<Rightarrow> (False, onDecodeError (CodecError err) ss1)
            | Inr packets \<Rightarrow>
                (let now = timeNow env
                 in (True, rtcpRecord_loop env sm now packets ss1))))"

text \<open>Calling a registered read callback.\<close>

fun run_readFunc ::
  "('e, 'fmt) env \<Rightarrow> 'fmt serverSessionMedia \<Rightarrow> readFunc \<Rightarrow> bytes \<Rightarrow> ('e, 'fmt) ServerSession
     \<Rightarrow> bool \<times> ('e, 'fmt) ServerSession" where
  "run_readFunc env sm Fn_readRTCPUDPPlay = readRTCPUDPPlay env sm"
| "run_readFunc env sm Fn_readRTPUDPRecord = readRTPUDPRecord env sm"
| "run_readFunc env sm Fn_readRTCPUDPRecord = readRTCPUDPRecord env sm"
| "run_readFunc env sm Fn_readRTPTCPPlay = readRTPTCPPlay env sm"
| "run_readFunc env sm Fn_readRTCPTCPPlay = readRTCPTCPPlay env sm"
| "run_readFunc env sm Fn_readRTPTCPRecord = readRTPTCPRecord env sm"
| "run_readFunc env sm Fn_readRTCPTCPRecord = readRTCPTCPRecord env sm"

subsection \<open>Reading the log\<close>

text \<open>What a call appended to the log.\<close>

definition new_events ::
  "('e, 'fmt) ServerSession \<Rightarrow> ('e, 'fmt) ServerSession \<Rightarrow> ('e, 'fmt) event list" where
  "new_events ss ss' = drop (length (trace ss)) (trace ss')"

text \<open>Calls of the packet codec.\<close>

fun is_codec_event :: "('e, 'fmt) event \<Rightarrow> bool" where
  "is_codec_event (CodecRTPUnmarshal b) = True"
| "is_codec_event (CodecRTCPUnmarshal b) = True"
| "is_codec_event (CodecRTPMarshal p) = True"
| "is_codec_event (CodecRTCPMarshal p) = True"
| "is_codec_event _ = False"

text \<open>
  Calls of a pipeline's handlers: \<^verbatim>\<open>readRTPUDP\<close>, \<^verbatim>\<open>readRTPTCP\<close> and
  \<^verbatim>\<open>rtcpReceiver.ProcessSenderReport\<close>.
\<close>

fun is_handler_event :: "('e, 'fmt) event \<Rightarrow> bool" where
  "is_handler_event (ReadRTPUDP f p t) = True"
| "is_handler_event (ReadRTPTCP f p) = True"
| "is_handler_event (ProcessSenderReport f p t) = True"
| "is_handler_event _ = False"

fun is_observer_event :: "('e, 'fmt) event \<Rightarrow> bool" where
  "is_observer_event (OnPacketRTCP p) = True"
| "is_observer_event _ = False"

fun is_error_event :: "('e, 'fmt) event \<Rightarrow> bool" where
  "is_error_event (OnDecodeError e) = True"
| "is_error_event _ = False"

fun is_udp_write_event :: "('e, 'fmt) event \<Rightarrow> bool" where
  "is_udp_write_event (UDPWrite l b a) = True"
| "is_udp_write_event _ = False"

fun is_addClient_event :: "('e, 'fmt) event \<Rightarrow> bool" where
  "is_addClient_event (AddClient l ip port cb) = True"
| "is_addClient_event _ = False"

subsection \<open>A concrete environment\<close>

text \<open>
  A small environment, session and unit on which the theorems below are instantiated. The
  codec here is a stand-in, not the wire format: a data payload of at least two bytes decodes
  to a packet whose payload type is the second byte; a non-empty control payload decodes to
  one sub-packet per byte (200: a sender report of source \<open>0x11223344\<close>, 202: a sender
  report of source \<open>0x55\<close>, 201: a receiver report); a data packet is encoded as twelve
  header bytes, of which the second is the payload type, followed by its payload; every
  control packet is encoded as the eight bytes of an empty receiver report. Formats are
  named by their payload type. The pipeline of format 96 has observed the source
  \<open>0x11223344\<close>, the pipeline of format 97 none.
\<close>

definition example_rtp_Unmarshal :: "bytes \<Rightarrow> string + rtp_Packet" where
  "example_rtp_Unmarshal b =
     (if length b < 2 then Inl ''short''
      else Inr \<lparr>Header = rtp_Header_zero\<lparr>Version := 2, PayloadType := b ! 1\<rparr>, Payload = drop 2 b\<rparr>)"

definition example_rtcp_sub :: "u8 \<Rightarrow> rtcp_Packet" where
  "example_rtcp_sub b =
     (if b = 200 then SenderReport 0x11223344 []
      else if b = 202 then SenderReport 0x55 []
      else if b = 201 then ReceiverReport 0 []
      else OtherPacket [b])"

definition example_rtcp_Unmarshal :: "bytes \<Rightarrow> string + rtcp_Packet list" where
  "example_rtcp_Unmarshal b = (if b = [] then Inl ''empty'' else Inr (map example_rtcp_sub b))"

definition example_env :: "(string, nat) env" where
  "example_env =
     \<lparr>udpMaxPayloadSize = 1472,
      rtp_Unmarshal = example_rtp_Unmarshal,
      rtcp_Unmarshal = example_rtcp_Unmarshal,
      rtp_Marshal = (\<lambda>p. ([128, PayloadType (Header p), 0, 0, 0, 0, 0, 0, 0, 0, 0, 0] @ Payload p, None)),
      rtcp_Marshal = (\<lambda>p. ([128, 201, 0, 1, 0, 0, 0, 0], None)),
      timeNow = 1700000000500000000,
      time_Now = 1700000000500000000,
      WriteTimeout = 10000000000,
      format_PayloadType = of_nat,
      SenderSSRC = (\<lambda>ss f. if format f = 96 then Some 0x11223344 else None),
      rangeFormats = (\<lambda>ss. [97, 96]),
      udpListener_write = (\<lambda>ss l b a. None),
      conn_WriteInterleavedFrame = (\<lambda>ss f. None)\<rparr>"

text \<open>The same environment with every underlying write failing.\<close>

definition failing_env :: "(string, nat) env" where
  "failing_env =
     example_env\<lparr>udpListener_write := (\<lambda>ss l b a. Some ''write failed''),
                 conn_WriteInterleavedFrame := (\<lambda>ss f. Some ''write failed'')\<rparr>"

definition example_sm :: "nat serverSessionMedia" where
  "example_sm =
     \<lparr>media_Formats = [96, 97],
      tcpChannel = 0,
      udpRTPReadPort = 5000,
      udpRTPWriteAddr = \<lparr>addr_IP = [192, 168, 0, 2], addr_Port = 5000, addr_Zone = []\<rparr>,
      udpRTCPReadPort = 5001,
      udpRTCPWriteAddr = \<lparr>addr_IP = [192, 168, 0, 2], addr_Port = 5001, addr_Zone = []\<rparr>,
      formats = [96 \<mapsto> \<lparr>format = 96\<rparr>, 97 \<mapsto> \<lparr>format = 97\<rparr>],
      writePacketRTPInQueue = None,
      writePacketRTCPInQueue = None\<rparr>"

text \<open>A session set up for the given transport, in the given state, with empty counters and log.\<close>

definition example_ss :: "Transport \<Rightarrow> ServerSessionState \<Rightarrow> (string, nat) ServerSession" where
  "example_ss t st =
     \<lparr>state = st,
      setuppedTransport = Some t,
      author_ip = [192, 168, 0, 2],
      bytesSent = 0,
      bytesReceived = 0,
      udpLastPacketTime = 0,
      tcpCallbackByChannel = None,
      tcpFrame = \<lparr>Channel = 0, FramePayload = []\<rparr>,
      trace = []\<rparr>"

section \<open>Properties\<close>

subsection \<open>Basic facts\<close>

lemma emit_simps [simp]:
  "trace (emit e ss) = trace ss @ [e]"
  "bytesSent (emit e ss) = bytesSent ss"
  "bytesReceived (emit e ss) = bytesReceived ss"
  "udpLastPacketTime (emit e ss) = udpLastPacketTime ss"
  "state (emit e ss) = state ss"
  "setuppedTransport (emit e ss) = setuppedTransport ss"
  "author_ip (emit e ss) = author_ip ss"
  "tcpCallbackByChannel (emit e ss) = tcpCallbackByChannel ss"
  "tcpFrame (emit e ss) = tcpFrame ss"
  by (simp_all add: emit_def)

lemma rtcpPlay_loop_eq:
  "rtcpPlay_loop packets ss = ss\<lparr>trace := trace ss @ map OnPacketRTCP packets\<rparr>"
  by (induction packets arbitrary: ss) (simp_all add: onPacketRTCP_def emit_def)

lemma start_formats_eq: "start_formats fs ss = ss\<lparr>trace := trace ss @ map SfStart fs\<rparr>"
  by (induction fs arbitrary: ss) (simp_all add: emit_def)

lemma stop_formats_eq: "stop_formats fs ss = ss\<lparr>trace := trace ss @ map SfStop fs\<rparr>"
  by (induction fs arbitrary: ss) (simp_all add: emit_def)

lemma dom_initialize_loop:
  "dom (initialize_loop env fs m) = dom m \<union> format_PayloadType env ` set fs"
  by (induction fs arbitrary: m) auto

lemma initialize_example:
  "formats (initialize example_env (example_sm\<lparr>formats := Map.empty\<rparr>)
      (example_ss TransportUDP ServerSessionStatePreRecord)) = formats example_sm"
  by (simp add: initialize_def example_sm_def example_ss_def example_env_def)

lemma findFormatWithSSRC_loop_Some:
  "findFormatWithSSRC_loop env ss fs ssrc = Some f \<Longrightarrow> f \<in> set fs \<and> SenderSSRC env ss f = Some ssrc"
  by (induction fs) (auto split: option.splits if_splits)

lemma findFormatWithSSRC_loop_None:
  "findFormatWithSSRC_loop env ss fs ssrc = None \<longleftrightarrow> (\<forall>f\<in>set fs. SenderSSRC env ss f \<noteq> Some ssrc)"
  by (induction fs) (auto split: option.splits if_splits)

lemma set_range_formats:
  "set (rangeFormats env ss) = dom (formats sm) \<Longrightarrow> set (range_formats env sm ss) = ran (formats sm)"
  by (force simp: range_formats_def map_filter_def ran_def dom_def image_iff)

lemma rtcpRecord_body_frame:
  "\<exists>evs. rtcpRecord_body env sm now pkt ss = ss\<lparr>trace := trace ss @ evs\<rparr>"
  by (cases pkt) (auto simp: rtcpRecord_body_def onPacketRTCP_def emit_def split: option.splits)

lemma rtcpRecord_loop_frame:
  "\<exists>evs. rtcpRecord_loop env sm now packets ss = ss\<lparr>trace := trace ss @ evs\<rparr>"
proof (induction packets arbitrary: ss)
  case Nil
  show ?case by (rule exI [of _ "[]"]) simp
next
  case (Cons pkt packets)
  obtain e1 where b: "rtcpRecord_body env sm now pkt ss = ss\<lparr>trace := trace ss @ e1\<rparr>"
    using rtcpRecord_body_frame by blast
  obtain e2 where l: "rtcpRecord_loop env sm now packets (ss\<lparr>trace := trace ss @ e1\<rparr>)
       = (ss\<lparr>trace := trace ss @ e1\<rparr>)\<lparr>trace := trace (ss\<lparr>trace := trace ss @ e1\<rparr>) @ e2\<rparr>"
    using Cons.IH by blast
  show ?case by (rule exI [of _ "e1 @ e2"]) (simp add: b l)
qed

lemma new_events_append: "trace ss' = trace ss @ evs \<Longrightarrow> new_events ss ss' = evs"
  by (simp add: new_events_def)

lemma rtcpRecord_loop_fields [simp]:
  "bytesReceived (rtcpRecord_loop env sm now packets ss) = bytesReceived ss"
  "udpLastPacketTime (rtcpRecord_loop env sm now packets ss) = udpLastPacketTime ss"
  "bytesSent (rtcpRecord_loop env sm now packets ss) = bytesSent ss"
proof -
  obtain evs where "rtcpRecord_loop env sm now packets ss = ss\<lparr>trace := trace ss @ evs\<rparr>"
    using rtcpRecord_loop_frame by blast
  then show "bytesReceived (rtcpRecord_loop env sm now packets ss) = bytesReceived ss"
    "udpLastPacketTime (rtcpRecord_loop env sm now packets ss) = udpLastPacketTime ss"
    "bytesSent (rtcpRecord_loop env sm now packets ss) = bytesSent ss"
    by simp_all
qed

text \<open>The UDP entry points, with \<^verbatim>\<open>uint64(plen)\<close> written as a conversion of the length.\<close>

lemma readRTCPUDPPlay_unfold:
  "readRTCPUDPPlay env sm payload ss =
     (if int (length payload) = udpMaxPayloadSize env + 1
      then (False, onDecodeError ErrServerRTCPPacketTooBigUDP
                     (atomic_AddUint64_bytesReceived (of_nat (length payload)) ss))
      else
        (case rtcp_Unmarshal env payload of
           Inl err \<Rightarrow>
             (False, onDecodeError (CodecError err)
                       (emit (CodecRTCPUnmarshal payload)
                          (atomic_AddUint64_bytesReceived (of_nat (length payload)) ss)))
         | Inr packets \<Rightarrow>
             (True, rtcpPlay_loop packets
                      (atomic_StoreInt64_udpLastPacketTime (Unix (timeNow env))
                         (emit (CodecRTCPUnmarshal payload)
                            (atomic_AddUint64_bytesReceived (of_nat (length payload)) ss))))))"
  unfolding readRTCPUDPPlay_def call_rtcp_Unmarshal_def Let_def of_int_of_nat_eq prod.case
  by (rule refl)

lemma readRTPUDPRecord_unfold:
  "readRTPUDPRecord env sm payload ss =
     (if int (length payload) = udpMaxPayloadSize env + 1
      then (False, onDecodeError ErrServerRTPPacketTooBigUDP
                     (atomic_AddUint64_bytesReceived (of_nat (length payload)) ss))
      else
        (case rtp_Unmarshal env payload of
           Inl err \<Rightarrow>
             (False, onDecodeError (CodecError err)
                       (emit (CodecRTPUnmarshal payload)
                          (atomic_AddUint64_bytesReceived (of_nat (length payload)) ss)))
         | Inr pkt \<Rightarrow>
             (case formats sm (PayloadType (Header pkt)) of
                None \<Rightarrow>
                  (False, onDecodeError (ErrServerRTPPacketUnknownPayloadType (PayloadType (Header pkt)))
                            (emit (CodecRTPUnmarshal payload)
                               (atomic_AddUint64_bytesReceived (of_nat (length payload)) ss)))
              | Some forma \<Rightarrow>
                  (True, emit (ReadRTPUDP forma pkt (timeNow env))
                           (atomic_StoreInt64_udpLastPacketTime (Unix (timeNow env))
                              (emit (CodecRTPUnmarshal payload)
                                 (atomic_AddUint64_bytesReceived (of_nat (length payload)) ss)))))))"
  unfolding readRTPUDPRecord_def call_rtp_Unmarshal_def Let_def of_int_of_nat_eq prod.case
  by (rule refl)

lemma readRTCPUDPRecord_unfold:
  "readRTCPUDPRecord env sm payload ss =
     (if int (length payload) = udpMaxPayloadSize env + 1
      then (False, onDecodeError ErrServerRTCPPacketTooBigUDP
                     (atomic_AddUint64_bytesReceived (of_nat (length payload)) ss))
      else
        (case rtcp_Unmarshal env payload of
           Inl err \<Rightarrow>
             (False, onDecodeError (CodecError err)
                       (emit (CodecRTCPUnmarshal payload)
                          (atomic_AddUint64_bytesReceived (of_nat (length payload)) ss)))
         | Inr packets \<Rightarrow>
             (True, rtcpRecord_loop env sm (timeNow env) packets
                      (atomic_StoreInt64_udpLastPacketTime (Unix (timeNow env))
                         (emit (CodecRTCPUnmarshal payload)
                            (atomic_AddUint64_bytesReceived (of_nat (length payload)) ss))))))"
  unfolding readRTCPUDPRecord_def call_rtcp_Unmarshal_def Let_def of_int_of_nat_eq prod.case
  by (rule refl)

lemmas read_defs =
  readRTCPUDPPlay_unfold readRTPUDPRecord_unfold readRTCPUDPRecord_unfold readRTPTCPPlay_def
  readRTCPTCPPlay_def readRTPTCPRecord_def readRTCPTCPRecord_def

lemmas effect_defs =
  atomic_AddUint64_bytesReceived_def atomic_StoreInt64_udpLastPacketTime_def onDecodeError_def
  call_rtp_Unmarshal_def call_rtcp_Unmarshal_def

lemmas write_defs =
  writePacketRTPInQueueUDP_def writePacketRTCPInQueueUDP_def writePacketRTPInQueueTCP_def
  writePacketRTCPInQueueTCP_def atomic_AddUint64_bytesSent_def listener_write_def
  call_WriteInterleavedFrame_def

lemma bytesSent_run_writeFunc:
  "bytesSent (snd (run_writeFunc env sm w payload ss)) = bytesSent ss + of_nat (length payload)"
  by (cases w) (simp_all add: write_defs Let_def)

lemma bytesSent_run_writes:
  "bytesSent (snd (run_writes env sm calls ss)) =
     bytesSent ss + of_nat (sum_list (map (length \<circ> snd) calls))"
proof (induction calls arbitrary: ss)
  case Nil
  show ?case by simp
next
  case (Cons c calls)
  obtain w payload where c: "c = (w, payload)" by (cases c)
  have "bytesSent (snd (run_writes env sm (c # calls) ss)) =
      bytesSent (snd (run_writes env sm calls (snd (run_writeFunc env sm w payload ss))))"
    by (simp add: c split: prod.splits)
  also have "\<dots> = bytesSent (snd (run_writeFunc env sm w payload ss))
      + of_nat (sum_list (map (length \<circ> snd) calls))"
    by (rule Cons.IH)
  also have "\<dots> = bytesSent ss + of_nat (sum_list (map (length \<circ> snd) (c # calls)))"
    by (simp add: bytesSent_run_writeFunc c)
  finally show ?case .
qed

lemma unat_plus_of_nat:
  fixes a :: u64
  assumes "unat a + n < 2 ^ 64"
  shows "unat (a + of_nat n) = unat a + n"
proof -
  have "unat (a + of_nat n) = (unat a + n) mod 2 ^ 64"
    by (simp add: unat_word_ariths unat_of_nat mod_add_right_eq)
  then show ?thesis using assms by simp
qed

lemmas start_defs =
  start_def start_udp_unicast_def start_tcp_def start_formats_eq addClient_def
  call_rtp_Marshal_def call_rtcp_Marshal_def listener_write_def

lemma rtcpRecord_loop_append:
  "rtcpRecord_loop env sm now (xs @ ys) ss = rtcpRecord_loop env sm now ys (rtcpRecord_loop env sm now xs ss)"
  by (induction xs arbitrary: ss) simp_all

lemma rtcpRecord_loop_take_Suc:
  "i < length packets \<Longrightarrow>
   rtcpRecord_loop env sm now (take (Suc i) packets) ss =
     rtcpRecord_body env sm now (packets ! i) (rtcpRecord_loop env sm now (take i packets) ss)"
  by (simp add: take_Suc_conv_app_nth rtcpRecord_loop_append)

lemma rtcpRecord_body_observer:
  "filter is_observer_event (trace (rtcpRecord_body env sm now pkt ss)) =
     filter is_observer_event (trace ss) @ [OnPacketRTCP pkt]"
  by (cases pkt) (simp_all add: rtcpRecord_body_def onPacketRTCP_def split: option.splits)

lemma rtcpRecord_loop_observer:
  "filter is_observer_event (trace (rtcpRecord_loop env sm now packets ss)) =
     filter is_observer_event (trace ss) @ map OnPacketRTCP packets"
  by (induction packets arbitrary: ss) (simp_all add: rtcpRecord_body_observer)

lemma rtcpRecord_loop_trace_prefix:
  "\<exists>evs. trace (rtcpRecord_loop env sm now packets ss) = trace ss @ evs"
proof -
  obtain evs where "rtcpRecord_loop env sm now packets ss = ss\<lparr>trace := trace ss @ evs\<rparr>"
    using rtcpRecord_loop_frame by blast
  then show ?thesis by simp
qed

lemma rtcpRecord_loop_new_observer:
  assumes "trace ss0 = trace ss @ pre" and "filter is_observer_event pre = []"
  shows "filter is_observer_event (new_events ss (rtcpRecord_loop env sm now packets ss0))
           = map OnPacketRTCP packets"
proof -
  obtain evs where e: "trace (rtcpRecord_loop env sm now packets ss0) = trace ss0 @ evs"
    using rtcpRecord_loop_trace_prefix by blast
  have "filter is_observer_event (trace ss0 @ evs) =
      filter is_observer_event (trace ss0) @ map OnPacketRTCP packets"
    using rtcpRecord_loop_observer [of env sm now packets ss0] by (simp add: e)
  then have "filter is_observer_event evs = map OnPacketRTCP packets" by simp
  then show ?thesis by (simp add: new_events_def e assms)
qed

lemma findFormatWithSSRC_match:
  assumes "set (rangeFormats env s) = dom (formats sm)"
    and "\<exists>f\<in>ran (formats sm). SenderSSRC env s f = Some X"
  shows "\<exists>f\<in>ran (formats sm). SenderSSRC env s f = Some X \<and> findFormatWithSSRC env sm X s = Some f"
proof -
  have r: "set (range_formats env sm s) = ran (formats sm)"
    using assms(1) by (rule set_range_formats)
  have "findFormatWithSSRC env sm X s \<noteq> None"
    using assms(2) by (simp add: findFormatWithSSRC_def findFormatWithSSRC_loop_None r)
  then obtain f where f: "findFormatWithSSRC env sm X s = Some f" by blast
  then have "f \<in> ran (formats sm) \<and> SenderSSRC env s f = Some X"
    using findFormatWithSSRC_loop_Some [of env s "range_formats env sm s" X f]
    by (simp add: findFormatWithSSRC_def r)
  with f show ?thesis by blast
qed

lemma findFormatWithSSRC_no_match:
  assumes "set (rangeFormats env s) = dom (formats sm)"
    and "\<not> (\<exists>f\<in>ran (formats sm). SenderSSRC env s f = Some X)"
  shows "findFormatWithSSRC env sm X s = None"
  using assms
  by (simp add: findFormatWithSSRC_def findFormatWithSSRC_loop_None set_range_formats)

lemma rtcpRecord_body_step:
  assumes "set (rangeFormats env s) = dom (formats sm)"
  shows "case p of
           SenderReport X r \<Rightarrow>
             (if \<exists>f\<in>ran (formats sm). SenderSSRC env s f = Some X
              then \<exists>f\<in>ran (formats sm). SenderSSRC env s f = Some X
                     \<and> findFormatWithSSRC env sm X s = Some f
                     \<and> new_events s (rtcpRecord_body env sm now p s)
                         = [ProcessSenderReport f p now, OnPacketRTCP p]
              else findFormatWithSSRC env sm X s = None
                     \<and> new_events s (rtcpRecord_body env sm now p s) = [OnPacketRTCP p])
         | ReceiverReport X r \<Rightarrow> new_events s (rtcpRecord_body env sm now p s) = [OnPacketRTCP p]
         | OtherPacket b \<Rightarrow> new_events s (rtcpRecord_body env sm now p s) = [OnPacketRTCP p]"
proof (cases p)
  case (SenderReport X r)
  show ?thesis
  proof (cases "\<exists>f\<in>ran (formats sm). SenderSSRC env s f = Some X")
    case True
    then obtain f where f: "f \<in> ran (formats sm)" "SenderSSRC env s f = Some X"
        "findFormatWithSSRC env sm X s = Some f"
      using findFormatWithSSRC_match [OF assms] by blast
    have "new_events s (rtcpRecord_body env sm now p s) = [ProcessSenderReport f p now, OnPacketRTCP p]"
      by (simp add: SenderReport rtcpRecord_body_def f onPacketRTCP_def new_events_def)
    with f True show ?thesis by (auto simp: SenderReport)
  next
    case False
    then have n: "findFormatWithSSRC env sm X s = None"
      using findFormatWithSSRC_no_match [OF assms] by blast
    have "new_events s (rtcpRecord_body env sm now p s) = [OnPacketRTCP p]"
      by (simp add: SenderReport rtcpRecord_body_def n onPacketRTCP_def new_events_def)
    with n False show ?thesis by (simp add: SenderReport)
  qed
next
  case (ReceiverReport X r)
  then show ?thesis by (simp add: rtcpRecord_body_def onPacketRTCP_def new_events_def)
next
  case (OtherPacket b)
  then show ?thesis by (simp add: rtcpRecord_body_def onPacketRTCP_def new_events_def)
qed

subsection \<open>Deliver-role data ingress over the interleaved transport\<close>

text \<open>
  Claim C7. For every input payload, the read handler bound to the data channel of the
  interleaved transport in the play state, \<^verbatim>\<open>readRTPTCPPlay\<close>, returns false and leaves the
  session as it was: the counters, the liveness timestamp and the log are unchanged, so no
  pipeline is invoked and no error is reported.
\<close>

theorem readRTPTCPPlay_always_fails:
  "fst (run_readFunc env sm Fn_readRTPTCPPlay payload ss) = False
   \<and> snd (run_readFunc env sm Fn_readRTPTCPPlay payload ss) = ss"
  by (simp add: readRTPTCPPlay_def)

subsection \<open>The received-byte counter\<close>

text \<open>
  Claim C2, as amended. The three UDP read entry points (\<^verbatim>\<open>readRTCPUDPPlay\<close>,
  \<^verbatim>\<open>readRTPUDPRecord\<close>, \<^verbatim>\<open>readRTCPUDPRecord\<close>) add the length of the received payload to
  the session's received-byte counter, in \<^verbatim>\<open>uint64\<close> arithmetic, for every input, whether
  the read succeeds or fails. The four read entry points of the interleaved transport leave
  the counter unchanged.
\<close>

theorem bytesReceived_after_read:
  "bytesReceived (snd (run_readFunc env sm rf payload ss)) =
     (if rf \<in> {Fn_readRTCPUDPPlay, Fn_readRTPUDPRecord, Fn_readRTCPUDPRecord}
      then bytesReceived ss + of_nat (length payload)
      else bytesReceived ss)"
  by (cases rf)
     (simp_all add: read_defs effect_defs rtcpPlay_loop_eq Let_def split: sum.splits option.splits)

text \<open>On a control datagram of two bytes the counter goes from 0 to 2.\<close>

theorem bytesReceived_after_read_witness:
  "bytesReceived (snd (run_readFunc example_env example_sm Fn_readRTCPUDPPlay [200, 201]
      (example_ss TransportUDP ServerSessionStatePlay))) = 2"
  using bytesReceived_after_read [of example_env example_sm Fn_readRTCPUDPPlay "[200, 201]"
      "example_ss TransportUDP ServerSessionStatePlay"]
  by (simp add: example_ss_def)

text \<open>
  Claim C2 as stated fails on the interleaved transport: a control payload of two bytes read
  by \<^verbatim>\<open>readRTCPTCPPlay\<close> is decoded, the read returns true, and the counter is not the
  previous value plus two.
\<close>

theorem interleaved_read_not_counted:
  "bytesReceived (snd (run_readFunc example_env example_sm Fn_readRTCPTCPPlay [200, 201]
      (example_ss TransportTCP ServerSessionStatePlay)))
   \<noteq> bytesReceived (example_ss TransportTCP ServerSessionStatePlay) + of_nat (length [200, 201 :: u8])
   \<and> fst (run_readFunc example_env example_sm Fn_readRTCPTCPPlay [200, 201]
      (example_ss TransportTCP ServerSessionStatePlay))"
  by (simp add: read_defs effect_defs rtcpPlay_loop_eq example_ss_def example_env_def
      example_rtcp_Unmarshal_def)

subsection \<open>The liveness timestamp\<close>

text \<open>
  Claim C9, as amended. The liveness timestamp \<^verbatim>\<open>udpLastPacketTime\<close> is set to the current
  time (\<^verbatim>\<open>timeNow().Unix()\<close>) by every UDP read that returns true, and is left unchanged by
  every UDP read that returns false and by every read of the interleaved transport. A UDP
  control read returns true exactly when the datagram passes the size guard and decodes; a
  UDP data read returns true exactly when, besides, the payload type of the decoded packet
  is a key of \<^verbatim>\<open>formats\<close>.
\<close>

theorem udpLastPacketTime_after_read:
  "udpLastPacketTime (snd (run_readFunc env sm rf payload ss)) =
     (if rf \<in> {Fn_readRTCPUDPPlay, Fn_readRTPUDPRecord, Fn_readRTCPUDPRecord}
         \<and> fst (run_readFunc env sm rf payload ss)
      then Unix (timeNow env)
      else udpLastPacketTime ss)
   \<and> (fst (run_readFunc env sm Fn_readRTCPUDPPlay payload ss) \<longleftrightarrow>
        int (length payload) \<noteq> udpMaxPayloadSize env + 1 \<and> \<not> isl (rtcp_Unmarshal env payload))
   \<and> (fst (run_readFunc env sm Fn_readRTCPUDPRecord payload ss) \<longleftrightarrow>
        int (length payload) \<noteq> udpMaxPayloadSize env + 1 \<and> \<not> isl (rtcp_Unmarshal env payload))
   \<and> (fst (run_readFunc env sm Fn_readRTPUDPRecord payload ss) \<longleftrightarrow>
        int (length payload) \<noteq> udpMaxPayloadSize env + 1
        \<and> (case rtp_Unmarshal env payload of
              Inl err \<Rightarrow> False
            | Inr pkt \<Rightarrow> PayloadType (Header pkt) \<in> dom (formats sm)))"
proof -
  have a: "udpLastPacketTime (snd (run_readFunc env sm rf payload ss)) =
     (if rf \<in> {Fn_readRTCPUDPPlay, Fn_readRTPUDPRecord, Fn_readRTCPUDPRecord}
         \<and> fst (run_readFunc env sm rf payload ss)
      then Unix (timeNow env)
      else udpLastPacketTime ss)"
    by (cases rf)
       (simp_all add: read_defs effect_defs rtcpPlay_loop_eq Let_def split: sum.splits option.splits)
  have b: "fst (run_readFunc env sm Fn_readRTCPUDPPlay payload ss) \<longleftrightarrow>
        int (length payload) \<noteq> udpMaxPayloadSize env + 1 \<and> \<not> isl (rtcp_Unmarshal env payload)"
    by (simp add: read_defs effect_defs Let_def split: sum.splits)
  have c: "fst (run_readFunc env sm Fn_readRTCPUDPRecord payload ss) \<longleftrightarrow>
        int (length payload) \<noteq> udpMaxPayloadSize env + 1 \<and> \<not> isl (rtcp_Unmarshal env payload)"
    by (simp add: read_defs effect_defs Let_def split: sum.splits)
  have d: "fst (run_readFunc env sm Fn_readRTPUDPRecord payload ss) \<longleftrightarrow>
        int (length payload) \<noteq> udpMaxPayloadSize env + 1
        \<and> (case rtp_Unmarshal env payload of
              Inl err \<Rightarrow> False
            | Inr pkt \<Rightarrow> PayloadType (Header pkt) \<in> dom (formats sm))"
    by (auto simp add: read_defs effect_defs Let_def split: sum.splits option.splits)
  from a b c d show ?thesis by blast
qed

text \<open>A data datagram of payload type 96, a key of \<^verbatim>\<open>formats\<close>: the timestamp is set.\<close>

theorem udpLastPacketTime_after_read_witness:
  "udpLastPacketTime (snd (run_readFunc example_env example_sm Fn_readRTPUDPRecord [128, 96, 7]
      (example_ss TransportUDP (ServerSessionStateOther 0)))) = 1700000000
   \<and> fst (run_readFunc example_env example_sm Fn_readRTPUDPRecord [128, 96, 7]
      (example_ss TransportUDP (ServerSessionStateOther 0)))"
  using udpLastPacketTime_after_read [of example_env example_sm Fn_readRTPUDPRecord "[128, 96, 7]"
      "example_ss TransportUDP (ServerSessionStateOther 0)"]
  by (simp add: example_env_def example_sm_def example_rtp_Unmarshal_def Unix_def)

text \<open>
  Claim C9 as stated fails for \<^verbatim>\<open>readRTPUDPRecord\<close>: a datagram of three bytes passes the
  size guard and decodes to a packet of payload type 33, which is not a key of \<^verbatim>\<open>formats\<close>;
  the timestamp keeps its old value 0 and is not set to the current time.
\<close>

theorem unknown_payload_type_keeps_timestamp:
  "int (length [128, 33, 7 :: u8]) \<noteq> udpMaxPayloadSize example_env + 1
   \<and> rtp_Unmarshal example_env [128, 33, 7]
       = Inr \<lparr>Header = rtp_Header_zero\<lparr>Version := 2, PayloadType := 33\<rparr>, Payload = [7]\<rparr>
   \<and> udpLastPacketTime (snd (readRTPUDPRecord example_env example_sm [128, 33, 7]
        (example_ss TransportUDP (ServerSessionStateOther 0)))) = 0
   \<and> Unix (timeNow example_env) = 1700000000"
  by (simp add: read_defs effect_defs example_ss_def example_env_def example_sm_def
      example_rtp_Unmarshal_def Unix_def)

subsection \<open>The size guard of the UDP reads\<close>

text \<open>
  Claim C4. For each of the UDP read entry points (\<^verbatim>\<open>readRTCPUDPPlay\<close>, \<^verbatim>\<open>readRTPUDPRecord\<close>,
  \<^verbatim>\<open>readRTCPUDPRecord\<close>): when the length of the datagram is exactly the maximum UDP payload
  size plus one, the read returns false, and all it does is add the length to the
  received-byte counter and report the too-big error of its channel
  (\<^verbatim>\<open>ErrServerRTPPacketTooBigUDP\<close> for data, \<^verbatim>\<open>ErrServerRTCPPacketTooBigUDP\<close> for control);
  the codec is not invoked.
\<close>

theorem udp_read_max_plus_one:
  assumes "rf \<in> {Fn_readRTCPUDPPlay, Fn_readRTPUDPRecord, Fn_readRTCPUDPRecord}"
    and "int (length payload) = udpMaxPayloadSize env + 1"
  shows "fst (run_readFunc env sm rf payload ss) = False
    \<and> new_events ss (snd (run_readFunc env sm rf payload ss)) =
        [AtomicAddBytesReceived (of_nat (length payload)),
         OnDecodeError (if rf = Fn_readRTPUDPRecord then ErrServerRTPPacketTooBigUDP
                        else ErrServerRTCPPacketTooBigUDP)]
    \<and> filter is_codec_event (new_events ss (snd (run_readFunc env sm rf payload ss))) = []"
proof -
  from assms(1) have "rf = Fn_readRTCPUDPPlay \<or> rf = Fn_readRTPUDPRecord \<or> rf = Fn_readRTCPUDPRecord"
    by simp
  then show ?thesis
    using assms(2)
    by (elim disjE) (simp_all add: read_defs effect_defs new_events_def)
qed

text \<open>A data datagram of 1473 bytes with the maximum at 1472.\<close>

theorem udp_read_max_plus_one_witness:
  "fst (run_readFunc example_env example_sm Fn_readRTPUDPRecord (replicate 1473 0)
         (example_ss TransportUDP (ServerSessionStateOther 0))) = False
   \<and> new_events (example_ss TransportUDP (ServerSessionStateOther 0))
        (snd (run_readFunc example_env example_sm Fn_readRTPUDPRecord (replicate 1473 0)
           (example_ss TransportUDP (ServerSessionStateOther 0))))
      = [AtomicAddBytesReceived 1473, OnDecodeError ErrServerRTPPacketTooBigUDP]"
  using udp_read_max_plus_one [where rf = Fn_readRTPUDPRecord and payload = "replicate 1473 0"
      and env = example_env and sm = example_sm
      and ss = "example_ss TransportUDP (ServerSessionStateOther 0)"]
  by (simp add: example_env_def)

subsection \<open>Dispatch of data packets by payload type\<close>

text \<open>
  Claim C3. Take a data packet that reaches the routing step of an ingest-role read, that is,
  a payload that the codec decodes to \<open>pkt\<close> and that, on UDP, passes the size guard
  (\<^verbatim>\<open>readRTPTCPRecord\<close> has no guard). If the payload type of \<open>pkt\<close> is a key of
  \<^verbatim>\<open>formats\<close>, the read returns true, the only handler invoked is that of the entry stored
  under this key (\<^verbatim>\<open>readRTPUDP\<close> with the current time, or \<^verbatim>\<open>readRTPTCP\<close>), once, and no
  error is reported. If it is not a key, the read returns false, the only error reported is
  \<^verbatim>\<open>ErrServerRTPPacketUnknownPayloadType\<close> carrying this payload type, and no handler is
  invoked.
\<close>

theorem ingest_data_dispatch:
  assumes "rf = Fn_readRTPUDPRecord \<and> int (length payload) \<noteq> udpMaxPayloadSize env + 1
           \<or> rf = Fn_readRTPTCPRecord"
    and "rtp_Unmarshal env payload = Inr pkt"
  shows "case formats sm (PayloadType (Header pkt)) of
           Some forma \<Rightarrow>
             fst (run_readFunc env sm rf payload ss) = True
             \<and> filter is_handler_event (new_events ss (snd (run_readFunc env sm rf payload ss)))
                 = [if rf = Fn_readRTPUDPRecord then ReadRTPUDP forma pkt (timeNow env)
                    else ReadRTPTCP forma pkt]
             \<and> filter is_error_event (new_events ss (snd (run_readFunc env sm rf payload ss))) = []
         | None \<Rightarrow>
             fst (run_readFunc env sm rf payload ss) = False
             \<and> filter is_error_event (new_events ss (snd (run_readFunc env sm rf payload ss)))
                 = [OnDecodeError (ErrServerRTPPacketUnknownPayloadType (PayloadType (Header pkt)))]
             \<and> filter is_handler_event (new_events ss (snd (run_readFunc env sm rf payload ss))) = []"
  using assms
  by (elim disjE conjE)
     (simp_all add: read_defs effect_defs new_events_def Let_def split: option.splits)

text \<open>
  Payload type 96 over UDP reaches the pipeline of format 96; payload type 33 over the
  interleaved transport is reported as unknown.
\<close>

theorem ingest_data_dispatch_witness:
  "fst (run_readFunc example_env example_sm Fn_readRTPUDPRecord [128, 96, 7]
         (example_ss TransportUDP (ServerSessionStateOther 0))) = True
   \<and> filter is_handler_event (new_events (example_ss TransportUDP (ServerSessionStateOther 0))
        (snd (run_readFunc example_env example_sm Fn_readRTPUDPRecord [128, 96, 7]
           (example_ss TransportUDP (ServerSessionStateOther 0)))))
      = [ReadRTPUDP \<lparr>format = 96\<rparr>
           \<lparr>Header = rtp_Header_zero\<lparr>Version := 2, PayloadType := 96\<rparr>, Payload = [7]\<rparr>
           1700000000500000000]
   \<and> fst (run_readFunc example_env example_sm Fn_readRTPTCPRecord [128, 33, 7]
         (example_ss TransportTCP (ServerSessionStateOther 0))) = False
   \<and> filter is_error_event (new_events (example_ss TransportTCP (ServerSessionStateOther 0))
        (snd (run_readFunc example_env example_sm Fn_readRTPTCPRecord [128, 33, 7]
           (example_ss TransportTCP (ServerSessionStateOther 0)))))
      = [OnDecodeError (ErrServerRTPPacketUnknownPayloadType 33)]"
proof -
  have d1: "rtp_Unmarshal example_env [128, 96, 7]
      = Inr \<lparr>Header = rtp_Header_zero\<lparr>Version := 2, PayloadType := 96\<rparr>, Payload = [7]\<rparr>"
    by (simp add: example_env_def example_rtp_Unmarshal_def)
  have d2: "rtp_Unmarshal example_env [128, 33, 7]
      = Inr \<lparr>Header = rtp_Header_zero\<lparr>Version := 2, PayloadType := 33\<rparr>, Payload = [7]\<rparr>"
    by (simp add: example_env_def example_rtp_Unmarshal_def)
  have g: "Fn_readRTPUDPRecord = Fn_readRTPUDPRecord
        \<and> int (length [128, 96, 7 :: u8]) \<noteq> udpMaxPayloadSize example_env + 1
      \<or> Fn_readRTPUDPRecord = Fn_readRTPTCPRecord"
    by (simp add: example_env_def)
  have t: "Fn_readRTPTCPRecord = Fn_readRTPUDPRecord
        \<and> int (length [128, 33, 7 :: u8]) \<noteq> udpMaxPayloadSize example_env + 1
      \<or> Fn_readRTPTCPRecord = Fn_readRTPTCPRecord"
    by simp
  show ?thesis
    using ingest_data_dispatch [OF g d1, of example_sm "example_ss TransportUDP (ServerSessionStateOther 0)"]
      ingest_data_dispatch [OF t d2, of example_sm "example_ss TransportTCP (ServerSessionStateOther 0)"]
    by (simp add: example_sm_def example_env_def)
qed

subsection \<open>The size guard of the interleaved reads\<close>

text \<open>
  Claim C6, as amended. Over the interleaved transport, every payload longer than the maximum
  payload size that arrives on a control channel, in either role (\<^verbatim>\<open>readRTCPTCPPlay\<close>,
  \<^verbatim>\<open>readRTCPTCPRecord\<close>), is reported as \<^verbatim>\<open>ErrServerRTCPPacketTooBig\<close> carrying the length and
  the maximum, the read returns false and nothing else happens. The data channel has no
  size guard: \<^verbatim>\<open>readRTPTCPPlay\<close> returns false without reporting anything, and
  \<^verbatim>\<open>readRTPTCPRecord\<close> begins by handing the payload to the codec, whatever its length.
\<close>

theorem interleaved_size_guard:
  "(rf \<in> {Fn_readRTCPTCPPlay, Fn_readRTCPTCPRecord} \<and> int (length payload) > udpMaxPayloadSize env \<longrightarrow>
      run_readFunc env sm rf payload ss =
        (False, ss\<lparr>trace := trace ss @
           [OnDecodeError (ErrServerRTCPPacketTooBig (int (length payload)) (udpMaxPayloadSize env))]\<rparr>))
   \<and> run_readFunc env sm Fn_readRTPTCPPlay payload ss = (False, ss)
   \<and> (\<exists>evs. new_events ss (snd (run_readFunc env sm Fn_readRTPTCPRecord payload ss))
              = CodecRTPUnmarshal payload # evs)"
proof -
  have a: "rf \<in> {Fn_readRTCPTCPPlay, Fn_readRTCPTCPRecord} \<and> int (length payload) > udpMaxPayloadSize env \<longrightarrow>
      run_readFunc env sm rf payload ss =
        (False, ss\<lparr>trace := trace ss @
           [OnDecodeError (ErrServerRTCPPacketTooBig (int (length payload)) (udpMaxPayloadSize env))]\<rparr>)"
    by (auto simp: read_defs effect_defs emit_def)
  have b: "run_readFunc env sm Fn_readRTPTCPPlay payload ss = (False, ss)"
    by (simp add: read_defs)
  have c: "\<exists>evs. new_events ss (snd (run_readFunc env sm Fn_readRTPTCPRecord payload ss))
              = CodecRTPUnmarshal payload # evs"
    by (simp add: read_defs effect_defs new_events_def Let_def split: sum.splits option.splits)
  from a b c show ?thesis by blast
qed

text \<open>A control payload of 1473 bytes in the record role, with the maximum at 1472.\<close>

theorem interleaved_size_guard_witness:
  "run_readFunc example_env example_sm Fn_readRTCPTCPRecord (replicate 1473 200)
      (example_ss TransportTCP (ServerSessionStateOther 0))
   = (False, (example_ss TransportTCP (ServerSessionStateOther 0))
        \<lparr>trace := [OnDecodeError (ErrServerRTCPPacketTooBig 1473 1472)]\<rparr>)"
  using interleaved_size_guard [where rf = Fn_readRTCPTCPRecord and payload = "replicate 1473 200"
      and env = example_env and sm = example_sm
      and ss = "example_ss TransportTCP (ServerSessionStateOther 0)"]
  by (simp add: example_env_def example_ss_def)

text \<open>
  Claim C6 as stated fails on the data channel. A payload of 1473 bytes, above the maximum
  of 1472, read by \<^verbatim>\<open>readRTPTCPPlay\<close> is not reported as an error; one that decodes to a
  packet of payload type 96, read by \<^verbatim>\<open>readRTPTCPRecord\<close>, is handed to the pipeline and the
  read returns true.
\<close>

theorem interleaved_data_not_size_checked:
  "int (length (replicate 1473 (0::u8))) > udpMaxPayloadSize example_env
   \<and> filter is_error_event (new_events (example_ss TransportTCP ServerSessionStatePlay)
        (snd (run_readFunc example_env example_sm Fn_readRTPTCPPlay (replicate 1473 0)
           (example_ss TransportTCP ServerSessionStatePlay)))) = []
   \<and> int (length (128 # 96 # replicate 1471 (0::u8))) > udpMaxPayloadSize example_env
   \<and> run_readFunc example_env example_sm Fn_readRTPTCPRecord (128 # 96 # replicate 1471 0)
        (example_ss TransportTCP (ServerSessionStateOther 0))
      = (True, (example_ss TransportTCP (ServerSessionStateOther 0))
          \<lparr>trace := [CodecRTPUnmarshal (128 # 96 # replicate 1471 0),
                     ReadRTPTCP \<lparr>format = 96\<rparr>
                       \<lparr>Header = rtp_Header_zero\<lparr>Version := 2, PayloadType := 96\<rparr>,
                        Payload = replicate 1471 0\<rparr>]\<rparr>)"
  by (simp add: read_defs effect_defs new_events_def example_env_def example_sm_def example_ss_def
      example_rtp_Unmarshal_def emit_def)

subsection \<open>The sent-byte counter\<close>

text \<open>
  Claim C8. For every sequence of invocations of the UDP write strategies
  (\<^verbatim>\<open>writePacketRTPInQueueUDP\<close>, \<^verbatim>\<open>writePacketRTCPInQueueUDP\<close>) with payloads of sizes
  \<open>s1 .. sn\<close>, starting from a sent-byte counter \<open>c\<close>, the counter afterwards is
  \<open>c + s1 + ... + sn\<close>: as an equation of \<^verbatim>\<open>uint64\<close> values always, and as an equation of
  natural numbers whenever the sum fits in 64 bits. Each single invocation, from any
  session, adds exactly the length of its payload to the counter and then writes the payload
  to the destination address of its channel through the listener of its channel; it does
  nothing else.
\<close>

theorem udp_writes_counter:
  assumes "\<forall>c\<in>set calls. fst c \<in> {Fn_writePacketRTPInQueueUDP, Fn_writePacketRTCPInQueueUDP}"
  shows "bytesSent (snd (run_writes env sm calls ss))
           = bytesSent ss + of_nat (sum_list (map (length \<circ> snd) calls))
    \<and> (unat (bytesSent ss) + sum_list (map (length \<circ> snd) calls) < 2 ^ 64 \<longrightarrow>
         unat (bytesSent (snd (run_writes env sm calls ss)))
           = unat (bytesSent ss) + sum_list (map (length \<circ> snd) calls))
    \<and> (\<forall>c\<in>set calls. \<forall>s.
         bytesSent (snd (run_writeFunc env sm (fst c) (snd c) s)) = bytesSent s + of_nat (length (snd c))
         \<and> new_events s (snd (run_writeFunc env sm (fst c) (snd c) s))
             = [AtomicAddBytesSent (of_nat (length (snd c))),
                if fst c = Fn_writePacketRTPInQueueUDP
                then UDPWrite udpRTPListener (snd c) (udpRTPWriteAddr sm)
                else UDPWrite udpRTCPListener (snd c) (udpRTCPWriteAddr sm)])"
proof -
  have a: "bytesSent (snd (run_writes env sm calls ss))
           = bytesSent ss + of_nat (sum_list (map (length \<circ> snd) calls))"
    by (rule bytesSent_run_writes)
  have b: "unat (bytesSent ss) + sum_list (map (length \<circ> snd) calls) < 2 ^ 64 \<longrightarrow>
         unat (bytesSent (snd (run_writes env sm calls ss)))
           = unat (bytesSent ss) + sum_list (map (length \<circ> snd) calls)"
    by (simp add: a unat_plus_of_nat)
  have c: "\<forall>c\<in>set calls. \<forall>s.
         bytesSent (snd (run_writeFunc env sm (fst c) (snd c) s)) = bytesSent s + of_nat (length (snd c))
         \<and> new_events s (snd (run_writeFunc env sm (fst c) (snd c) s))
             = [AtomicAddBytesSent (of_nat (length (snd c))),
                if fst c = Fn_writePacketRTPInQueueUDP
                then UDPWrite udpRTPListener (snd c) (udpRTPWriteAddr sm)
                else UDPWrite udpRTCPListener (snd c) (udpRTCPWriteAddr sm)]"
  proof (intro ballI allI)
    fix c s
    assume "c \<in> set calls"
    with assms have "fst c = Fn_writePacketRTPInQueueUDP \<or> fst c = Fn_writePacketRTCPInQueueUDP"
      by auto
    then show "bytesSent (snd (run_writeFunc env sm (fst c) (snd c) s)) = bytesSent s + of_nat (length (snd c))
         \<and> new_events s (snd (run_writeFunc env sm (fst c) (snd c) s))
             = [AtomicAddBytesSent (of_nat (length (snd c))),
                if fst c = Fn_writePacketRTPInQueueUDP
                then UDPWrite udpRTPListener (snd c) (udpRTPWriteAddr sm)
                else UDPWrite udpRTCPListener (snd c) (udpRTCPWriteAddr sm)]"
      by (elim disjE) (simp_all add: write_defs new_events_def Let_def)
  qed
  from a b c show ?thesis by blast
qed

text \<open>Three writes of 5, 2 and 3 bytes from a counter of 100.\<close>

theorem udp_writes_counter_witness:
  "bytesSent (snd (run_writes example_env example_sm
      [(Fn_writePacketRTPInQueueUDP, [128, 96, 1, 2, 3]), (Fn_writePacketRTCPInQueueUDP, [200, 201]),
       (Fn_writePacketRTPInQueueUDP, [128, 96, 4])]
      ((example_ss TransportUDP ServerSessionStatePlay)\<lparr>bytesSent := 100\<rparr>))) = 110
   \<and> unat (bytesSent (snd (run_writes example_env example_sm
      [(Fn_writePacketRTPInQueueUDP, [128, 96, 1, 2, 3]), (Fn_writePacketRTCPInQueueUDP, [200, 201]),
       (Fn_writePacketRTPInQueueUDP, [128, 96, 4])]
      ((example_ss TransportUDP ServerSessionStatePlay)\<lparr>bytesSent := 100\<rparr>)))) = 110"
  using udp_writes_counter [where env = example_env and sm = example_sm
      and calls = "[(Fn_writePacketRTPInQueueUDP, [128, 96, 1, 2, 3]),
                    (Fn_writePacketRTCPInQueueUDP, [200, 201]),
                    (Fn_writePacketRTPInQueueUDP, [128, 96, 4])]"
      and ss = "(example_ss TransportUDP ServerSessionStatePlay)\<lparr>bytesSent := 100\<rparr>"]
  by (simp add: example_ss_def)

text \<open>
  Claim C10. Each of the four write strategies adds the length of the payload to the
  sent-byte counter as its first step and attempts the underlying write as its last step; the
  counter after the call is the counter before plus the length whatever the write returns,
  in particular when it returns an error.
\<close>

theorem write_counts_before_writing:
  "bytesSent (snd (run_writeFunc env sm w payload ss)) = bytesSent ss + of_nat (length payload)
   \<and> new_events ss (snd (run_writeFunc env sm w payload ss)) =
       (case w of
          Fn_writePacketRTPInQueueUDP \<Rightarrow>
            [AtomicAddBytesSent (of_nat (length payload)),
             UDPWrite udpRTPListener payload (udpRTPWriteAddr sm)]
        | Fn_writePacketRTCPInQueueUDP \<Rightarrow>
            [AtomicAddBytesSent (of_nat (length payload)),
             UDPWrite udpRTCPListener payload (udpRTCPWriteAddr sm)]
        | Fn_writePacketRTPInQueueTCP \<Rightarrow>
            [AtomicAddBytesSent (of_nat (length payload)),
             SetWriteDeadline (time_Add (time_Now env) (WriteTimeout env)),
             WriteInterleavedFrame \<lparr>Channel = tcpChannel sm, FramePayload = payload\<rparr>]
        | Fn_writePacketRTCPInQueueTCP \<Rightarrow>
            [AtomicAddBytesSent (of_nat (length payload)),
             SetWriteDeadline (time_Add (time_Now env) (WriteTimeout env)),
             WriteInterleavedFrame \<lparr>Channel = tcpChannel sm + 1, FramePayload = payload\<rparr>])
   \<and> (fst (run_writeFunc env sm w payload ss) \<noteq> None \<longrightarrow>
        bytesSent (snd (run_writeFunc env sm w payload ss)) = bytesSent ss + of_nat (length payload))"
proof -
  have a: "bytesSent (snd (run_writeFunc env sm w payload ss)) = bytesSent ss + of_nat (length payload)"
    by (rule bytesSent_run_writeFunc)
  have b: "new_events ss (snd (run_writeFunc env sm w payload ss)) =
       (case w of
          Fn_writePacketRTPInQueueUDP \<Rightarrow>
            [AtomicAddBytesSent (of_nat (length payload)),
             UDPWrite udpRTPListener payload (udpRTPWriteAddr sm)]
        | Fn_writePacketRTCPInQueueUDP \<Rightarrow>
            [AtomicAddBytesSent (of_nat (length payload)),
             UDPWrite udpRTCPListener payload (udpRTCPWriteAddr sm)]
        | Fn_writePacketRTPInQueueTCP \<Rightarrow>
            [AtomicAddBytesSent (of_nat (length payload)),
             SetWriteDeadline (time_Add (time_Now env) (WriteTimeout env)),
             WriteInterleavedFrame \<lparr>Channel = tcpChannel sm, FramePayload = payload\<rparr>]
        | Fn_writePacketRTCPInQueueTCP \<Rightarrow>
            [AtomicAddBytesSent (of_nat (length payload)),
             SetWriteDeadline (time_Add (time_Now env) (WriteTimeout env)),
             WriteInterleavedFrame \<lparr>Channel = tcpChannel sm + 1, FramePayload = payload\<rparr>])"
    by (cases w) (simp_all add: write_defs new_events_def Let_def)
  from a b show ?thesis by blast
qed

text \<open>
  With every underlying write failing, an interleaved data write of three bytes and a UDP
  control write of two bytes return the error and have counted their bytes.
\<close>

theorem write_counts_before_writing_witness:
  "fst (run_writeFunc failing_env example_sm Fn_writePacketRTPInQueueTCP [128, 96, 7]
         (example_ss TransportTCP ServerSessionStatePlay)) = Some ''write failed''
   \<and> bytesSent (snd (run_writeFunc failing_env example_sm Fn_writePacketRTPInQueueTCP [128, 96, 7]
         (example_ss TransportTCP ServerSessionStatePlay))) = 3
   \<and> fst (run_writeFunc failing_env example_sm Fn_writePacketRTCPInQueueUDP [200, 201]
         (example_ss TransportUDP ServerSessionStatePlay)) = Some ''write failed''
   \<and> bytesSent (snd (run_writeFunc failing_env example_sm Fn_writePacketRTCPInQueueUDP [200, 201]
         (example_ss TransportUDP ServerSessionStatePlay))) = 2"
  using write_counts_before_writing [where env = failing_env and sm = example_sm
      and w = Fn_writePacketRTPInQueueTCP and payload = "[128, 96, 7]"
      and ss = "example_ss TransportTCP ServerSessionStatePlay"]
    write_counts_before_writing [where env = failing_env and sm = example_sm
      and w = Fn_writePacketRTCPInQueueUDP and payload = "[200, 201]"
      and ss = "example_ss TransportUDP ServerSessionStatePlay"]
  by (simp add: write_defs failing_env_def example_env_def example_ss_def Let_def)

subsection \<open>Correlation of sender reports\<close>

text \<open>
  Claim C5. Take an ingest-role control read (\<^verbatim>\<open>readRTCPUDPRecord\<close> or \<^verbatim>\<open>readRTCPTCPRecord\<close>)
  whose payload passes the size guard and decodes to the sub-packets \<open>packets\<close>, and let
  \<open>ss0\<close> be the session when the loop over the sub-packets is entered. Every \<^verbatim>\<open>range\<close>
  over \<^verbatim>\<open>formats\<close> is assumed to visit the keys of the map, in any order. Then the read
  returns true, its result is the loop run from \<open>ss0\<close>, and the observer callback
  \<^verbatim>\<open>onPacketRTCP\<close> is invoked once for every sub-packet, in order. For the sub-packet of
  index \<open>i\<close>, with the session as the loop has left it after the first \<open>i\<close> sub-packets:
  if it is a sender report of source \<open>X\<close> and some entry of \<^verbatim>\<open>formats\<close> has observed the
  source \<open>X\<close>, then \<^verbatim>\<open>findFormatWithSSRC\<close> returns an entry that has observed \<open>X\<close> and
  the sub-packet causes exactly one call of that entry's \<^verbatim>\<open>ProcessSenderReport\<close>, with the
  time read before the loop, followed by the observer; if no entry has observed \<open>X\<close>,
  \<^verbatim>\<open>findFormatWithSSRC\<close> returns nil and the sub-packet causes the call of the observer
  only; a sub-packet that is not a sender report causes the call of the observer only.
\<close>

theorem ingest_control_correlation:
  assumes range: "\<forall>s. set (rangeFormats env s) = dom (formats sm)"
    and dec: "rtcp_Unmarshal env payload = Inr packets"
    and entry:
      "rf = Fn_readRTCPUDPRecord \<and> int (length payload) \<noteq> udpMaxPayloadSize env + 1
         \<and> ss0 = atomic_StoreInt64_udpLastPacketTime (Unix (timeNow env))
                   (emit (CodecRTCPUnmarshal payload)
                      (atomic_AddUint64_bytesReceived (of_nat (length payload)) ss))
       \<or> rf = Fn_readRTCPTCPRecord \<and> int (length payload) \<le> udpMaxPayloadSize env
         \<and> ss0 = emit (CodecRTCPUnmarshal payload) ss"
  shows "fst (run_readFunc env sm rf payload ss) = True
    \<and> snd (run_readFunc env sm rf payload ss) = rtcpRecord_loop env sm (timeNow env) packets ss0
    \<and> filter is_observer_event (new_events ss (snd (run_readFunc env sm rf payload ss)))
        = map OnPacketRTCP packets
    \<and> (\<forall>i<length packets.
          case packets ! i of
            SenderReport X r \<Rightarrow>
              (if \<exists>f\<in>ran (formats sm).
                    SenderSSRC env (rtcpRecord_loop env sm (timeNow env) (take i packets) ss0) f = Some X
               then \<exists>f\<in>ran (formats sm).
                      SenderSSRC env (rtcpRecord_loop env sm (timeNow env) (take i packets) ss0) f = Some X
                      \<and> findFormatWithSSRC env sm X
                          (rtcpRecord_loop env sm (timeNow env) (take i packets) ss0) = Some f
                      \<and> new_events (rtcpRecord_loop env sm (timeNow env) (take i packets) ss0)
                          (rtcpRecord_loop env sm (timeNow env) (take (Suc i) packets) ss0)
                          = [ProcessSenderReport f (packets ! i) (timeNow env), OnPacketRTCP (packets ! i)]
               else findFormatWithSSRC env sm X
                      (rtcpRecord_loop env sm (timeNow env) (take i packets) ss0) = None
                    \<and> new_events (rtcpRecord_loop env sm (timeNow env) (take i packets) ss0)
                        (rtcpRecord_loop env sm (timeNow env) (take (Suc i) packets) ss0)
                        = [OnPacketRTCP (packets ! i)])
          | ReceiverReport X r \<Rightarrow>
              new_events (rtcpRecord_loop env sm (timeNow env) (take i packets) ss0)
                (rtcpRecord_loop env sm (timeNow env) (take (Suc i) packets) ss0)
                = [OnPacketRTCP (packets ! i)]
          | OtherPacket b \<Rightarrow>
              new_events (rtcpRecord_loop env sm (timeNow env) (take i packets) ss0)
                (rtcpRecord_loop env sm (timeNow env) (take (Suc i) packets) ss0)
                = [OnPacketRTCP (packets ! i)])"
proof -
  have res: "run_readFunc env sm rf payload ss = (True, rtcpRecord_loop env sm (timeNow env) packets ss0)"
    using entry dec
    by (elim disjE conjE) (simp_all add: read_defs call_rtcp_Unmarshal_def Let_def)
  have pre: "\<exists>pre. trace ss0 = trace ss @ pre \<and> filter is_observer_event pre = []"
    using entry by (elim disjE conjE) (simp_all add: effect_defs)
  then obtain pre where p: "trace ss0 = trace ss @ pre" "filter is_observer_event pre = []"
    by blast
  have obs: "filter is_observer_event (new_events ss (rtcpRecord_loop env sm (timeNow env) packets ss0))
        = map OnPacketRTCP packets"
    using p by (rule rtcpRecord_loop_new_observer)
  have step: "\<forall>i<length packets.
          case packets ! i of
            SenderReport X r \<Rightarrow>
              (if \<exists>f\<in>ran (formats sm).
                    SenderSSRC env (rtcpRecord_loop env sm (timeNow env) (take i packets) ss0) f = Some X
               then \<exists>f\<in>ran (formats sm).
                      SenderSSRC env (rtcpRecord_loop env sm (timeNow env) (take i packets) ss0) f = Some X
                      \<and> findFormatWithSSRC env sm X
                          (rtcpRecord_loop env sm (timeNow env) (take i packets) ss0) = Some f
                      \<and> new_events (rtcpRecord_loop env sm (timeNow env) (take i packets) ss0)
                          (rtcpRecord_loop env sm (timeNow env) (take (Suc i) packets) ss0)
                          = [ProcessSenderReport f (packets ! i) (timeNow env), OnPacketRTCP (packets ! i)]
               else findFormatWithSSRC env sm X
                      (rtcpRecord_loop env sm (timeNow env) (take i packets) ss0) = None
                    \<and> new_events (rtcpRecord_loop env sm (timeNow env) (take i packets) ss0)
                        (rtcpRecord_loop env sm (timeNow env) (take (Suc i) packets) ss0)
                        = [OnPacketRTCP (packets ! i)])
          | ReceiverReport X r \<Rightarrow>
              new_events (rtcpRecord_loop env sm (timeNow env) (take i packets) ss0)
                (rtcpRecord_loop env sm (timeNow env) (take (Suc i) packets) ss0)
                = [OnPacketRTCP (packets ! i)]
          | OtherPacket b \<Rightarrow>
              new_events (rtcpRecord_loop env sm (timeNow env) (take i packets) ss0)
                (rtcpRecord_loop env sm (timeNow env) (take (Suc i) packets) ss0)
                = [OnPacketRTCP (packets ! i)]"
  proof (intro allI impI)
    fix i
    assume i: "i < length packets"
    have r: "set (rangeFormats env (rtcpRecord_loop env sm (timeNow env) (take i packets) ss0))
        = dom (formats sm)"
      using range by blast
    show "case packets ! i of
            SenderReport X r \<Rightarrow>
              (if \<exists>f\<in>ran (formats sm).
                    SenderSSRC env (rtcpRecord_loop env sm (timeNow env) (take i packets) ss0) f = Some X
               then \<exists>f\<in>ran (formats sm).
                      SenderSSRC env (rtcpRecord_loop env sm (timeNow env) (take i packets) ss0) f = Some X
                      \<and> findFormatWithSSRC env sm X
                          (rtcpRecord_loop env sm (timeNow env) (take i packets) ss0) = Some f
                      \<and> new_events (rtcpRecord_loop env sm (timeNow env) (take i packets) ss0)
                          (rtcpRecord_loop env sm (timeNow env) (take (Suc i) packets) ss0)
                          = [ProcessSenderReport f (packets ! i) (timeNow env), OnPacketRTCP (packets ! i)]
               else findFormatWithSSRC env sm X
                      (rtcpRecord_loop env sm (timeNow env) (take i packets) ss0) = None
                    \<and> new_events (rtcpRecord_loop env sm (timeNow env) (take i packets) ss0)
                        (rtcpRecord_loop env sm (timeNow env) (take (Suc i) packets) ss0)
                        = [OnPacketRTCP (packets ! i)])
          | ReceiverReport X r \<Rightarrow>
              new_events (rtcpRecord_loop env sm (timeNow env) (take i packets) ss0)
                (rtcpRecord_loop env sm (timeNow env) (take (Suc i) packets) ss0)
                = [OnPacketRTCP (packets ! i)]
          | OtherPacket b \<Rightarrow>
              new_events (rtcpRecord_loop env sm (timeNow env) (take i packets) ss0)
                (rtcpRecord_loop env sm (timeNow env) (take (Suc i) packets) ss0)
                = [OnPacketRTCP (packets ! i)]"
      unfolding rtcpRecord_loop_take_Suc [OF i]
      by (rule rtcpRecord_body_step [OF r])
  qed
  from res obs step show ?thesis by simp
qed

text \<open>
  A control datagram of three sub-packets: a sender report of the source observed by the
  pipeline of format 96, a sender report of a source nobody has observed, and a receiver
  report.
\<close>

theorem ingest_control_correlation_witness:
  "fst (run_readFunc example_env example_sm Fn_readRTCPUDPRecord [200, 202, 201]
         (example_ss TransportUDP (ServerSessionStateOther 0))) = True
   \<and> new_events (example_ss TransportUDP (ServerSessionStateOther 0))
        (snd (run_readFunc example_env example_sm Fn_readRTCPUDPRecord [200, 202, 201]
           (example_ss TransportUDP (ServerSessionStateOther 0))))
      = [AtomicAddBytesReceived 3,
         CodecRTCPUnmarshal [200, 202, 201],
         AtomicStoreUdpLastPacketTime 1700000000,
         ProcessSenderReport \<lparr>format = 96\<rparr> (SenderReport 0x11223344 []) 1700000000500000000,
         OnPacketRTCP (SenderReport 0x11223344 []),
         OnPacketRTCP (SenderReport 0x55 []),
         OnPacketRTCP (ReceiverReport 0 [])]"
proof -
  have range: "\<forall>s. set (rangeFormats example_env s) = dom (formats example_sm)"
    by (auto simp: example_env_def example_sm_def)
  have dec: "rtcp_Unmarshal example_env [200, 202, 201]
      = Inr [SenderReport 0x11223344 [], SenderReport 0x55 [], ReceiverReport 0 []]"
    by (simp add: example_env_def example_rtcp_Unmarshal_def example_rtcp_sub_def)
  have entry:
    "Fn_readRTCPUDPRecord = Fn_readRTCPUDPRecord
       \<and> int (length [200, 202, 201 :: u8]) \<noteq> udpMaxPayloadSize example_env + 1
       \<and> atomic_StoreInt64_udpLastPacketTime (Unix (timeNow example_env))
           (emit (CodecRTCPUnmarshal [200, 202, 201])
              (atomic_AddUint64_bytesReceived (of_nat (length [200, 202, 201 :: u8]))
                 (example_ss TransportUDP (ServerSessionStateOther 0))))
         = atomic_StoreInt64_udpLastPacketTime (Unix (timeNow example_env))
             (emit (CodecRTCPUnmarshal [200, 202, 201])
                (atomic_AddUint64_bytesReceived (of_nat (length [200, 202, 201 :: u8]))
                   (example_ss TransportUDP (ServerSessionStateOther 0))))
     \<or> Fn_readRTCPUDPRecord = Fn_readRTCPTCPRecord
       \<and> int (length [200, 202, 201 :: u8]) \<le> udpMaxPayloadSize example_env
       \<and> atomic_StoreInt64_udpLastPacketTime (Unix (timeNow example_env))
           (emit (CodecRTCPUnmarshal [200, 202, 201])
              (atomic_AddUint64_bytesReceived (of_nat (length [200, 202, 201 :: u8]))
                 (example_ss TransportUDP (ServerSessionStateOther 0))))
         = emit (CodecRTCPUnmarshal [200, 202, 201]) (example_ss TransportUDP (ServerSessionStateOther 0))"
    by (simp add: example_env_def)
  have run: "rtcpRecord_loop example_env example_sm (timeNow example_env)
       [SenderReport 0x11223344 [], SenderReport 0x55 [], ReceiverReport 0 []]
       (atomic_StoreInt64_udpLastPacketTime (Unix (timeNow example_env))
           (emit (CodecRTCPUnmarshal [200, 202, 201])
              (atomic_AddUint64_bytesReceived (of_nat (length [200, 202, 201 :: u8]))
                 (example_ss TransportUDP (ServerSessionStateOther 0)))))
     = (example_ss TransportUDP (ServerSessionStateOther 0))
         \<lparr>bytesReceived := 3, udpLastPacketTime := 1700000000,
          trace := [AtomicAddBytesReceived 3,
             CodecRTCPUnmarshal [200, 202, 201],
             AtomicStoreUdpLastPacketTime 1700000000,
             ProcessSenderReport \<lparr>format = 96\<rparr> (SenderReport 0x11223344 []) 1700000000500000000,
             OnPacketRTCP (SenderReport 0x11223344 []),
             OnPacketRTCP (SenderReport 0x55 []),
             OnPacketRTCP (ReceiverReport 0 [])]\<rparr>"
    by (simp add: rtcpRecord_body_def findFormatWithSSRC_def range_formats_def map_filter_def
        effect_defs onPacketRTCP_def emit_def example_env_def example_sm_def example_ss_def Unix_def)
  note th = ingest_control_correlation [OF range dec entry]
  show ?thesis
    unfolding th [THEN conjunct1] th [THEN conjunct2, THEN conjunct1] run
    by (simp add: new_events_def example_ss_def)
qed

subsection \<open>Activation over unicast UDP\<close>

text \<open>
  Claim C1, as amended. For a unit whose session is set up for unicast UDP, \<^verbatim>\<open>start\<close> does
  not panic, starts the pipelines, and then: in the play state (deliver role) it registers
  the control-channel callback \<^verbatim>\<open>readRTCPUDPPlay\<close> and nothing else, so it sends no priming
  packet and registers nothing for the data channel; in every other state (the ingest role)
  it sends exactly one empty data packet (an RTP packet of version 2) to the data
  destination and exactly one empty receiver report to the control destination, and only
  then registers \<^verbatim>\<open>readRTPUDPRecord\<close> for the data channel and \<^verbatim>\<open>readRTCPUDPRecord\<close> for the
  control channel.
\<close>

theorem start_udp_unicast_events:
  assumes "setuppedTransport ss = Some TransportUDP"
  shows "\<not> isl (start env sm ss)
    \<and> new_events ss (snd (projr (start env sm ss))) =
        map SfStart (range_formats env sm ss) @
        (if state ss = ServerSessionStatePlay
         then [AddClient udpRTCPListener (author_ip ss) (udpRTCPReadPort sm) Fn_readRTCPUDPPlay]
         else [CodecRTPMarshal (rtp_Packet_zero\<lparr>Header := rtp_Header_zero\<lparr>Version := 2\<rparr>\<rparr>),
               UDPWrite udpRTPListener
                 (fst (rtp_Marshal env (rtp_Packet_zero\<lparr>Header := rtp_Header_zero\<lparr>Version := 2\<rparr>\<rparr>)))
                 (udpRTPWriteAddr sm),
               CodecRTCPMarshal rtcp_ReceiverReport_zero,
               UDPWrite udpRTCPListener (fst (rtcp_Marshal env rtcp_ReceiverReport_zero))
                 (udpRTCPWriteAddr sm),
               AddClient udpRTPListener (author_ip ss) (udpRTPReadPort sm) Fn_readRTPUDPRecord,
               AddClient udpRTCPListener (author_ip ss) (udpRTCPReadPort sm) Fn_readRTCPUDPRecord])"
  using assms by (simp add: start_defs new_events_def Let_def)

text \<open>Activation of the example unit in a state other than play.\<close>

theorem start_udp_unicast_events_witness:
  "new_events (example_ss TransportUDP (ServerSessionStateOther 0))
     (snd (projr (start example_env example_sm (example_ss TransportUDP (ServerSessionStateOther 0)))))
   = [SfStart \<lparr>format = 97\<rparr>, SfStart \<lparr>format = 96\<rparr>,
      CodecRTPMarshal (rtp_Packet_zero\<lparr>Header := rtp_Header_zero\<lparr>Version := 2\<rparr>\<rparr>),
      UDPWrite udpRTPListener [128, 0, 0, 0, 0, 0, 0, 0, 0, 0, 0, 0]
        \<lparr>addr_IP = [192, 168, 0, 2], addr_Port = 5000, addr_Zone = []\<rparr>,
      CodecRTCPMarshal rtcp_ReceiverReport_zero,
      UDPWrite udpRTCPListener [128, 201, 0, 1, 0, 0, 0, 0]
        \<lparr>addr_IP = [192, 168, 0, 2], addr_Port = 5001, addr_Zone = []\<rparr>,
      AddClient udpRTPListener [192, 168, 0, 2] 5000 Fn_readRTPUDPRecord,
      AddClient udpRTCPListener [192, 168, 0, 2] 5001 Fn_readRTCPUDPRecord]"
  using start_udp_unicast_events [where ss = "example_ss TransportUDP (ServerSessionStateOther 0)"
      and env = example_env and sm = example_sm]
  by (simp add: example_ss_def example_env_def example_sm_def range_formats_def map_filter_def
      rtp_Packet_zero_def rtp_Header_zero_def)

text \<open>
  Claim C1 as stated has the two roles the wrong way round. In the play state the example
  unit sends no packet and registers the control callback only; in another state it sends the
  two priming packets.
\<close>

theorem start_play_sends_no_priming:
  "filter is_udp_write_event
     (new_events (example_ss TransportUDP ServerSessionStatePlay)
        (snd (projr (start example_env example_sm (example_ss TransportUDP ServerSessionStatePlay)))))
   = []
   \<and> filter is_addClient_event
     (new_events (example_ss TransportUDP ServerSessionStatePlay)
        (snd (projr (start example_env example_sm (example_ss TransportUDP ServerSessionStatePlay)))))
   = [AddClient udpRTCPListener [192, 168, 0, 2] 5001 Fn_readRTCPUDPPlay]
   \<and> filter is_udp_write_event
     (new_events (example_ss TransportUDP (ServerSessionStateOther 0))
        (snd (projr (start example_env example_sm (example_ss TransportUDP (ServerSessionStateOther 0))))))
   = [UDPWrite udpRTPListener [128, 0, 0, 0, 0, 0, 0, 0, 0, 0, 0, 0]
        \<lparr>addr_IP = [192, 168, 0, 2], addr_Port = 5000, addr_Zone = []\<rparr>,
      UDPWrite udpRTCPListener [128, 201, 0, 1, 0, 0, 0, 0]
        \<lparr>addr_IP = [192, 168, 0, 2], addr_Port = 5001, addr_Zone = []\<rparr>]"
  by (simp add: start_defs new_events_def Let_def example_ss_def example_env_def example_sm_def
      range_formats_def map_filter_def rtp_Packet_zero_def rtp_Header_zero_def)

end
